theory Spec2Isabelle
  imports Complex_Main "HOL-Library.Sublist"
begin

section \<open>Thrown values and string search\<close>

text \<open>
  A thrown value, as far as the code observes it. The value may be \<^verbatim>\<open>undefined\<close> or
  \<^verbatim>\<open>null\<close>; of any other value the code reads the \<^verbatim>\<open>message\<close> property and what
  \<^verbatim>\<open>JSON.stringify\<close> does with the value.

  The message is absent (or \<^verbatim>\<open>undefined\<close>), \<^verbatim>\<open>null\<close>, a string, a value that is not
  a string but has an \<^verbatim>\<open>includes\<close> method (an array, say: the flag tells whether
  \<^verbatim>\<open>includes('429')\<close> is truthy), or any other value, which has no such method. The
  last two carry the text that a template literal prints for them.

  \<^verbatim>\<open>JSON.stringify\<close> yields a string, yields \<^verbatim>\<open>undefined\<close> (for a function or a symbol),
  or throws a type error with some message (for a circular object or a BigInt).
\<close>

datatype messageProp =
    MessageUndefined
  | MessageNull
  | MessageString string
  | MessageArrayLike bool string
  | MessageOther string

datatype stringified =
    Stringified string
  | StringifiedUndefined
  | StringifyThrows string

datatype thrown = ThrownUndefined | ThrownNull | ThrownValue messageProp stringified

text \<open>
  \<^verbatim>\<open>new Error(m)\<close>, and the type errors of the engine: the message is \<open>m\<close> and the
  serialization is \<^verbatim>\<open>{}\<close>, as the own properties of an error are not enumerable.
\<close>

definition Error :: "string \<Rightarrow> thrown" where
  "Error m = ThrownValue (MessageString m) (Stringified ''{}'')"

text \<open>\<^verbatim>\<open>JSON.stringify(error)\<close>.\<close>

definition stringify :: "thrown \<Rightarrow> stringified" where
  "stringify error =
     (case error of
        ThrownUndefined \<Rightarrow> StringifiedUndefined
      | ThrownNull \<Rightarrow> Stringified ''null''
      | ThrownValue m j \<Rightarrow> j)"

text \<open>\<^verbatim>\<open>error?.message\<close>.\<close>

definition messageOf :: "thrown \<Rightarrow> messageProp" where
  "messageOf error =
     (case error of
        ThrownUndefined \<Rightarrow> MessageUndefined
      | ThrownNull \<Rightarrow> MessageUndefined
      | ThrownValue m j \<Rightarrow> m)"

text \<open>\<^verbatim>\<open>String.prototype.includes\<close>: \<open>str_includes s t\<close> holds when \<open>t\<close> occurs in \<open>s\<close>.\<close>

fun str_includes :: "string \<Rightarrow> string \<Rightarrow> bool" where
  "str_includes [] t = (t = [])"
| "str_includes (c # cs) t = (prefix t (c # cs) \<or> str_includes cs t)"

section \<open>The retry policy (services/geminiService.ts)\<close>

text \<open>
  \<^verbatim>\<open>error?.message?.includes('429')\<close>: the truthiness of the result, or the type error of
  calling \<^verbatim>\<open>includes\<close> on a message that has none.
\<close>

definition messageIncludes429 :: "thrown \<Rightarrow> thrown + bool" where
  "messageIncludes429 error =
     (case messageOf error of
        MessageUndefined \<Rightarrow> Inr False
      | MessageNull \<Rightarrow> Inr False
      | MessageString m \<Rightarrow> Inr (str_includes m ''429'')
      | MessageArrayLike b t \<Rightarrow> Inr b
      | MessageOther t \<Rightarrow> Inl (Error ''error.message.includes is not a function''))"

text \<open>
  Lines 22-23, in the order of evaluation: the serialization first, which may throw; then
  the message test; then, only if that is not truthy, the two tests on the serialization,
  which throw when it is \<^verbatim>\<open>undefined\<close>. The result is the truthiness of
  \<^verbatim>\<open>isRateLimit\<close>, or the value thrown on the way.
\<close>

definition isRateLimit :: "thrown \<Rightarrow> thrown + bool" where
  "isRateLimit error =
     (case stringify error of
        StringifyThrows t \<Rightarrow> Inl (Error t)
      | StringifiedUndefined \<Rightarrow>
          (case messageIncludes429 error of
             Inl typeError \<Rightarrow> Inl typeError
           | Inr b \<Rightarrow>
               if b then Inr True
               else Inl (Error ''Cannot read properties of undefined (reading 'includes')''))
      | Stringified errorStr \<Rightarrow>
          (case messageIncludes429 error of
             Inl typeError \<Rightarrow> Inl typeError
           | Inr b \<Rightarrow>
               Inr (b \<or> str_includes errorStr ''429''
                      \<or> str_includes errorStr ''RESOURCE_EXHAUSTED'')))"

text \<open>
  The classification in the words of the specification: the message or the serialized
  form contains a rate-limit marker, 429 or RESOURCE_EXHAUSTED.
\<close>

definition hasRateLimitMarker :: "thrown \<Rightarrow> bool" where
  "hasRateLimitMarker error =
     ((case messageOf error of
         MessageString m \<Rightarrow> str_includes m ''429'' \<or> str_includes m ''RESOURCE_EXHAUSTED''
       | _ \<Rightarrow> False)
      \<or> (case stringify error of
            Stringified j \<Rightarrow> str_includes j ''429'' \<or> str_includes j ''RESOURCE_EXHAUSTED''
          | _ \<Rightarrow> False))"

text \<open>
  \<open>withRetry fn k retries delay\<close>: the wrapped call \<open>fn\<close> is given by the outcome of
  each of its invocations, \<open>fn k\<close> being the outcome of invocation number \<open>k\<close> (counted
  from 0 over the whole retry sequence). The result is the value or the thrown value,
  together with the list of the \<^verbatim>\<open>sleep\<close> calls made, in order, in milliseconds. A
  value thrown inside the \<^verbatim>\<open>catch\<close> block while classifying the error is what the call
  then throws.
\<close>

fun withRetry :: "(nat \<Rightarrow> thrown + 'a) \<Rightarrow> nat \<Rightarrow> nat \<Rightarrow> nat \<Rightarrow> (thrown + 'a) \<times> nat list" where
  "withRetry fn k retries delay =
     (case fn k of
        Inr v \<Rightarrow> (Inr v, [])
      | Inl error \<Rightarrow>
          (case isRateLimit error of
             Inl typeError \<Rightarrow> (Inl typeError, [])
           | Inr rateLimit \<Rightarrow>
               if rateLimit \<and> retries > 0
               then (let (r, sleeps) = withRetry fn (Suc k) (retries - 1) (delay * 2)
                     in (r, delay # sleeps))
               else (Inl error, [])))"

declare withRetry.simps [simp del]

text \<open>The call with the default parameters \<^verbatim>\<open>retries = 3, delay = 2000\<close>.\<close>

definition withRetryDefault :: "(nat \<Rightarrow> thrown + 'a) \<Rightarrow> (thrown + 'a) \<times> nat list" where
  "withRetryDefault fn = withRetry fn 0 3 2000"

section \<open>The model registry (constants.ts) and the router (services/modelRouter.ts)\<close>

datatype Provider = gemini | pollinations | openai | mistral

datatype Capability = text_cap | image_cap | audio_cap | video_cap

datatype AuthMode = auth_user | auth_app | auth_none

record ModelConfig =
  cfg_id :: string
  cfg_provider :: Provider
  cfg_name :: string
  capabilities :: "Capability list"
  costPerMtok :: "real option"
  costPerRequest :: "real option"
  rateLimit :: nat
  isActive :: bool
  requiresAuth :: AuthMode

definition MODEL_REGISTRY :: "string \<rightharpoonup> ModelConfig" where
  "MODEL_REGISTRY = map_of
    [(''gemini-3-pro-preview'',
        \<lparr>cfg_id = ''gemini-3-pro-preview'', cfg_provider = gemini,
         cfg_name = ''Gemini 3 Pro (Reasoning)'', capabilities = [text_cap, audio_cap],
         costPerMtok = Some 3.5, costPerRequest = None, rateLimit = 100,
         isActive = True, requiresAuth = auth_user\<rparr>),
     (''gemini-3-flash-preview'',
        \<lparr>cfg_id = ''gemini-3-flash-preview'', cfg_provider = gemini,
         cfg_name = ''Gemini 3 Flash (Fast)'', capabilities = [text_cap, audio_cap],
         costPerMtok = Some 0.075, costPerRequest = None, rateLimit = 1000,
         isActive = True, requiresAuth = auth_user\<rparr>),
     (''pollinations-script-paid'',
        \<lparr>cfg_id = ''pollinations-script-paid'', cfg_provider = pollinations,
         cfg_name = ''Pollinations (Paid - GPT-4o)'', capabilities = [text_cap],
         costPerMtok = None, costPerRequest = Some 0.002, rateLimit = 500,
         isActive = True, requiresAuth = auth_user\<rparr>),
     (''pollinations-script-free'',
        \<lparr>cfg_id = ''pollinations-script-free'', cfg_provider = pollinations,
         cfg_name = ''Pollinations (Free)'', capabilities = [text_cap],
         costPerMtok = None, costPerRequest = Some 0, rateLimit = 30,
         isActive = True, requiresAuth = auth_none\<rparr>),
     (''pollinations-image-flux'',
        \<lparr>cfg_id = ''pollinations-image-flux'', cfg_provider = pollinations,
         cfg_name = ''Flux Pro (High Quality)'', capabilities = [image_cap],
         costPerMtok = None, costPerRequest = Some 0.03, rateLimit = 100,
         isActive = True, requiresAuth = auth_user\<rparr>),
     (''pollinations-image-free'',
        \<lparr>cfg_id = ''pollinations-image-free'', cfg_provider = pollinations,
         cfg_name = ''Pollinations Free (Turbo)'', capabilities = [image_cap],
         costPerMtok = None, costPerRequest = Some 0, rateLimit = 50,
         isActive = True, requiresAuth = auth_none\<rparr>),
     (''gemini-native-audio'',
        \<lparr>cfg_id = ''gemini-native-audio'', cfg_provider = gemini,
         cfg_name = ''Gemini Native Audio (Premium)'', capabilities = [audio_cap],
         costPerMtok = None, costPerRequest = Some 0.00001, rateLimit = 200,
         isActive = True, requiresAuth = auth_user\<rparr>),
     (''edge-neural-voices'',
        \<lparr>cfg_id = ''edge-neural-voices'', cfg_provider = openai,
         cfg_name = ''Microsoft Edge Neural (Free)'', capabilities = [audio_cap],
         costPerMtok = None, costPerRequest = Some 0, rateLimit = 1000,
         isActive = True, requiresAuth = auth_none\<rparr>)]"

datatype Quality = fast | balanced | premium

text \<open>
  The task argument. Its \<^verbatim>\<open>type\<close> is a string at run time, compared with the three
  literals; \<^verbatim>\<open>requiresReasoning\<close> is optional.
\<close>

record Task =
  task_type :: string
  quality :: Quality
  requiresReasoning :: "bool option"

record UserApiKeys =
  pollinationsKey :: "string option"
  openaiKey :: "string option"
  mistralKey :: "string option"

text \<open>
  The \<^verbatim>\<open>model\<close> field is a lookup in the registry, which yields \<^verbatim>\<open>undefined\<close>
  (\<open>None\<close>) for an identifier that is not registered.
\<close>

record RoutingDecision =
  modelId :: string
  model :: "ModelConfig option"
  reason :: string
  estimatedCost :: real

text \<open>Truthiness of an optional string (\<^verbatim>\<open>!!s\<close>) and of an optional flag.\<close>

definition truthyStr :: "string option \<Rightarrow> bool" where
  "truthyStr s = (case s of None \<Rightarrow> False | Some v \<Rightarrow> v \<noteq> [])"

definition truthyFlag :: "bool option \<Rightarrow> bool" where
  "truthyFlag b = (case b of None \<Rightarrow> False | Some v \<Rightarrow> v)"

definition selectModel :: "Task \<Rightarrow> UserApiKeys \<Rightarrow> thrown + RoutingDecision" where
  "selectModel task userKeys =
     (let hasPollinationsKey = truthyStr (pollinationsKey userKeys) in
      if task_type task = ''script_generation'' then
        (if quality task = premium \<or> truthyFlag (requiresReasoning task) then
           Inr \<lparr>modelId = ''gemini-3-pro-preview'',
                model = MODEL_REGISTRY ''gemini-3-pro-preview'',
                reason = ''Advanced reasoning required or premium quality selected (Gemini 3 Pro)'',
                estimatedCost = 0.005\<rparr>
         else if quality task = balanced \<and> hasPollinationsKey then
           Inr \<lparr>modelId = ''pollinations-script-paid'',
                model = MODEL_REGISTRY ''pollinations-script-paid'',
                reason = ''Utilizing Pollinations GPT-4o for balanced production'',
                estimatedCost = 0.002\<rparr>
         else
           Inr \<lparr>modelId = ''pollinations-script-free'',
                model = MODEL_REGISTRY ''pollinations-script-free'',
                reason = ''Standard fast script generation (Free tier)'',
                estimatedCost = 0\<rparr>)
      else if task_type task = ''image_generation'' then
        (if quality task = premium \<and> hasPollinationsKey then
           Inr \<lparr>modelId = ''pollinations-image-flux'',
                model = MODEL_REGISTRY ''pollinations-image-flux'',
                reason = ''High-fidelity visuals via Flux Pro'',
                estimatedCost = 0.03\<rparr>
         else
           Inr \<lparr>modelId = ''pollinations-image-free'',
                model = MODEL_REGISTRY ''pollinations-image-free'',
                reason = ''Free image generation using Turbo model'',
                estimatedCost = 0\<rparr>)
      else if task_type task = ''audio_synthesis'' then
        (if quality task = premium then
           Inr \<lparr>modelId = ''gemini-native-audio'',
                model = MODEL_REGISTRY ''gemini-native-audio'',
                reason = ''Premium multi-speaker synthesis (Gemini 2.5 Native)'',
                estimatedCost = 0.00001\<rparr>
         else
           Inr \<lparr>modelId = ''edge-neural-voices'',
                model = MODEL_REGISTRY ''edge-neural-voices'',
                reason = ''Efficient Edge neural voices for standard production'',
                estimatedCost = 0\<rparr>)
      else Inl (Error (''Unsupported task: '' @ task_type task)))"

section \<open>Shared types (types.ts) and voices (constants.ts)\<close>

datatype UserTier = FREE | PRO | ENTERPRISE

datatype TTSEngine = BROWSER | GEMINI

datatype ExportFormat = WAV | MP3 | OGG

datatype Gender = Male | Female | Neutral

record VoiceProfile =
  voice_id :: string
  voice_name :: string
  voiceName :: string
  gender :: Gender
  description :: string
  engine :: TTSEngine
  sampleText :: "string option"

definition VOICES :: "VoiceProfile list" where
  "VOICES =
    [\<lparr>voice_id = ''pro-1'', voice_name = ''Alex'', voiceName = ''Kore'', gender = Male,
      description = ''Authoritative'', engine = GEMINI,
      sampleText = Some ''Welcome to the future of podcasting.''\<rparr>,
     \<lparr>voice_id = ''pro-2'', voice_name = ''Jordan'', voiceName = ''Puck'', gender = Female,
      description = ''Bright'', engine = GEMINI,
      sampleText = Some ''It's a beautiful day to explore new ideas.''\<rparr>,
     \<lparr>voice_id = ''pro-3'', voice_name = ''Sam'', voiceName = ''Charon'', gender = Male,
      description = ''Intellectual'', engine = GEMINI,
      sampleText = Some ''Deep dives into the mysteries of the universe.''\<rparr>,
     \<lparr>voice_id = ''free-1'', voice_name = ''Andrew'', voiceName = ''en-US-AndrewNeural'',
      gender = Male, description = ''Edge Male'', engine = BROWSER,
      sampleText = Some ''Streaming from the edge of technology.''\<rparr>,
     \<lparr>voice_id = ''free-2'', voice_name = ''Emma'', voiceName = ''en-US-EmmaNeural'',
      gender = Female, description = ''Edge Female'', engine = BROWSER,
      sampleText = Some ''Let's talk about the world today.''\<rparr>,
     \<lparr>voice_id = ''free-3'', voice_name = ''Sonia'', voiceName = ''en-GB-SoniaNeural'',
      gender = Female, description = ''British'', engine = BROWSER,
      sampleText = Some ''Fancy a bit of intelligent conversation?''\<rparr>]"

datatype SegmentStatus = pending | generating | completed | failed

text \<open>
  A segment object. The two timing fields hold numbers of the type \<open>'d\<close>, of which the
  pipeline uses only \<open>0\<close> and \<open>+\<close>; no law of addition is assumed, so that the
  statements below hold for the additions exactly as the program performs them.
\<close>

record 'd PodcastSegment =
  seg_id :: string
  speaker :: string
  seg_text :: string
  audioUrl :: "string option"
  seg_status :: SegmentStatus
  duration :: "'d option"
  startTime :: "'d option"

text \<open>
  The fields of \<^verbatim>\<open>AppState\<close> that the production pipeline reads or writes (the art
  style, script type, trial, licence and usage fields are not touched by it).
\<close>

record AppState =
  tier :: UserTier
  app_quality :: Quality
  exportFormat :: ExportFormat
  apiKeys :: UserApiKeys
  isGenerating :: bool
  introText :: string
  outroText :: string
  speakerVoiceMap :: "string \<rightharpoonup> string"

datatype LogLevel = info | warn | error

record LogEntry =
  timestamp :: int
  level :: LogLevel
  log_message :: string

record ProductionHistory =
  hist_id :: string
  hist_topic :: string
  hist_timestamp :: int
  hist_script :: string
  hist_audioUrl :: "string option"
  hist_coverArtUrl :: "string option"
  srtContent :: "string option"
  modelUsed :: "string option"
  tokensUsed :: "nat option"

section \<open>The collaborators of the pipeline (services/audioEngine, browser APIs)\<close>

text \<open>
  A decoded audio buffer: the pipeline reads its \<^verbatim>\<open>duration\<close> only; the samples stand
  for the rest of its content.
\<close>

record 'd AudioBuffer =
  buf_duration :: 'd
  buf_samples :: "int list"

record Blob =
  blob_content :: string
  blob_type :: string

text \<open>
  The functions that the component imports from \<^verbatim>\<open>services/audioEngine\<close>, from the
  speech service and from the browser are parameters of the model. A call that can
  reject yields \<open>Inl\<close> of the thrown value. The two synthesis calls take the position
  of the segment in the run as first argument, so that their outcome may differ from one
  segment to the next; \<open>geminiGenerateSpeech\<close> is \<^verbatim>\<open>gemini.generateSpeech\<close>, the call
  already wrapped by the retry policy.
\<close>

record 'd Collaborators =
  ensureAudioContext :: "thrown option"
  generateBrowserSpeech :: "nat \<Rightarrow> string \<Rightarrow> string \<Rightarrow> thrown + 'd AudioBuffer"
  geminiGenerateSpeech :: "nat \<Rightarrow> string \<Rightarrow> string \<Rightarrow> thrown + string"
  decodeGeminiAudio :: "string \<Rightarrow> thrown + 'd AudioBuffer"
  createWatermarkBuffer :: "thrown + 'd AudioBuffer"
  concatenateAudioBuffers :: "'d AudioBuffer list \<Rightarrow> 'd AudioBuffer"
  audioBufferToMp3 :: "'d AudioBuffer \<Rightarrow> Blob"
  audioBufferToWav :: "'d AudioBuffer \<Rightarrow> Blob"
  generateSRT :: "'d PodcastSegment list \<Rightarrow> string"
  createObjectURL :: "Blob \<Rightarrow> string"
  dateNow :: int
  randomUUID :: string

section \<open>Strings: lower case and decimal numerals\<close>

text \<open>
  \<^verbatim>\<open>toLowerCase\<close> on the characters of HOL strings, which are bytes: the letters A to Z
  are folded, every other character is kept.
\<close>

definition toLowerChar :: "char \<Rightarrow> char" where
  "toLowerChar c =
     (case map_of (zip ''ABCDEFGHIJKLMNOPQRSTUVWXYZ'' ''abcdefghijklmnopqrstuvwxyz'') c of
        Some l \<Rightarrow> l
      | None \<Rightarrow> c)"

definition toLowerCase :: "string \<Rightarrow> string" where
  "toLowerCase s = map toLowerChar s"

text \<open>The decimal numeral that a template literal prints for a non-negative integer.\<close>

fun natToString :: "nat \<Rightarrow> string" where
  "natToString n =
     (if n < 10 then [''0123456789'' ! n]
      else natToString (n div 10) @ [''0123456789'' ! (n mod 10)])"

declare natToString.simps [simp del]

section \<open>Voice resolution (lines 339-344 of the component, and 213-218)\<close>

definition resolveVoice ::
  "VoiceProfile list \<Rightarrow> ModelConfig \<Rightarrow> (string \<rightharpoonup> string) \<Rightarrow> string \<Rightarrow> VoiceProfile option" where
  "resolveVoice voices ttsModel voiceMap spk =
     (let isGeminiEngine = (cfg_provider ttsModel = gemini);
          currentEngineVoices =
            filter (\<lambda>v. engine v = (if isGeminiEngine then GEMINI else BROWSER)) voices;
          mappedVoiceId = voiceMap spk;
          voice = find (\<lambda>v. Some (voice_id v) = mappedVoiceId
                            \<and> engine v = (if isGeminiEngine then GEMINI else BROWSER)) voices
      in case voice of
           Some v \<Rightarrow> Some v
         | None \<Rightarrow>
             (case find (\<lambda>v. str_includes (toLowerCase (voice_name v)) (toLowerCase spk))
                        currentEngineVoices of
                Some v \<Rightarrow> Some v
              | None \<Rightarrow> (case currentEngineVoices of [] \<Rightarrow> None | v # _ \<Rightarrow> Some v)))"

text \<open>
  The resolution order in the words of the specification: restrict to the family of the
  routing decision; take the mapped voice if it is in the restricted list; else the first
  restricted voice whose name contains the speaker label, case-insensitively; else the
  first restricted voice.
\<close>

definition restrictedVoices :: "VoiceProfile list \<Rightarrow> ModelConfig \<Rightarrow> VoiceProfile list" where
  "restrictedVoices voices ttsModel =
     (if cfg_provider ttsModel = gemini
      then filter (\<lambda>v. engine v = GEMINI) voices
      else filter (\<lambda>v. engine v = BROWSER) voices)"

definition containsCI :: "string \<Rightarrow> string \<Rightarrow> bool" where
  "containsCI name label = str_includes (toLowerCase name) (toLowerCase label)"

definition resolveVoice_spec ::
  "VoiceProfile list \<Rightarrow> ModelConfig \<Rightarrow> (string \<rightharpoonup> string) \<Rightarrow> string \<Rightarrow> VoiceProfile option" where
  "resolveVoice_spec voices ttsModel voiceMap spk =
     (let candidates = restrictedVoices voices ttsModel;
          mapped = (case voiceMap spk of
                      None \<Rightarrow> None
                    | Some vid \<Rightarrow> find (\<lambda>v. voice_id v = vid) candidates)
      in case mapped of
           Some v \<Rightarrow> Some v
         | None \<Rightarrow>
             (case find (\<lambda>v. containsCI (voice_name v) spk) candidates of
                Some v \<Rightarrow> Some v
              | None \<Rightarrow> (case candidates of [] \<Rightarrow> None | v # _ \<Rightarrow> Some v)))"

section \<open>The production run (handlePodcastProduction)\<close>

record Progress =
  percent :: int
  status :: string
  stage :: string

text \<open>
  The state that the run reads and writes. Segment objects live in a heap and the state
  variable \<^verbatim>\<open>segments\<close> is the list of their addresses, since the run assigns to the
  fields of the objects that this array references. \<open>progressCalls\<close> lists the
  arguments of the successive \<^verbatim>\<open>setProgress\<close> calls, oldest first (the state variable
  \<^verbatim>\<open>progress\<close> holds the last one). \<open>hasAudioContext\<close> tells whether
  \<^verbatim>\<open>audioContextRef.current\<close> is set.
\<close>

record 'd World =
  state :: AppState
  segments :: "nat list"
  heap :: "nat \<Rightarrow> 'd PodcastSegment"
  hasAudioContext :: bool
  script :: string
  topic :: string
  coverArtUrl :: "string option"
  fullAudioUrl :: "string option"
  srtUrl :: "string option"
  progressCalls :: "Progress list"
  logs :: "LogEntry list"
  history :: "ProductionHistory list"

definition addLog :: "'d Collaborators \<Rightarrow> LogLevel \<Rightarrow> string \<Rightarrow> 'd World \<Rightarrow> 'd World" where
  "addLog env lvl msg w =
     w\<lparr>logs := take 100 (\<lparr>timestamp = dateNow env, level = lvl, log_message = msg\<rparr> # logs w)\<rparr>"

definition setProgress :: "Progress \<Rightarrow> 'd World \<Rightarrow> 'd World" where
  "setProgress p w = w\<lparr>progressCalls := progressCalls w @ [p]\<rparr>"

text \<open>
  The elements of \<^verbatim>\<open>allSegments\<close>: the intro and outro objects are created by the run,
  the others are the objects of the state.
\<close>

datatype segref = IntroRef | ScriptRef nat | OutroRef

definition allSegments :: "'d World \<Rightarrow> segref list" where
  "allSegments w = [IntroRef] @ map ScriptRef (segments w) @ [OutroRef]"

definition initialStore :: "'d World \<Rightarrow> segref \<Rightarrow> 'd PodcastSegment" where
  "initialStore w r =
     (case r of
        IntroRef \<Rightarrow> \<lparr>seg_id = ''intro'', speaker = ''System'', seg_text = introText (state w),
                     audioUrl = None, seg_status = pending, duration = None, startTime = None\<rparr>
      | ScriptRef a \<Rightarrow> heap w a
      | OutroRef \<Rightarrow> \<lparr>seg_id = ''outro'', speaker = ''System'', seg_text = outroText (state w),
                     audioUrl = None, seg_status = pending, duration = None, startTime = None\<rparr>)"

text \<open>
  Numbers are IEEE doubles. A positive double below \<open>2 ^ 53\<close> is \<open>m / 2 ^ s\<close> for an
  integer \<open>m\<close> with \<open>2 ^ 52 \<le> m \<le> 2 ^ 53\<close> and a natural number \<open>s\<close>, and is written
  as the pair \<open>(m, s)\<close>; zero is \<open>(0, s)\<close>. For \<open>0 \<le> p\<close> and \<open>0 < q\<close> with a quotient
  below \<open>2 ^ 53\<close>, \<open>toDouble p q\<close> is the double nearest to \<open>p / q\<close>, a tie going to the
  even significand: this is the result of a division or a multiplication whose exact
  value is \<open>p / q\<close>. \<open>bitlength n\<close> is the number of binary digits of \<open>n\<close>.
\<close>

function bitlength :: "int \<Rightarrow> nat" where
  "bitlength n = (if n \<le> 0 then 0 else Suc (bitlength (n div 2)))"
  by pat_completeness auto
termination
  by (relation "measure nat") auto

declare bitlength.simps [simp del]

definition roundHalfEven :: "int \<Rightarrow> int \<Rightarrow> int" where
  "roundHalfEven p q =
     (let d = p div q; r = p mod q
      in if 2 * r < q then d
         else if q < 2 * r then d + 1
         else if even d then d else d + 1)"

definition toDouble :: "int \<Rightarrow> int \<Rightarrow> int \<times> nat" where
  "toDouble p q =
     (let s0 = (52 + bitlength q) - bitlength p;
          s = (if 2 ^ 52 * q \<le> p * 2 ^ s0 then s0 else s0 + 1)
      in (roundHalfEven (p * 2 ^ s) q, s))"

text \<open>
  \<^verbatim>\<open>Math.round\<close> of the double \<open>(m, s)\<close>: the nearest integer, a tie going upwards.
\<close>

definition mathRound :: "int \<times> nat \<Rightarrow> int" where
  "mathRound x = (case x of (m, s) \<Rightarrow> (2 * m + 2 ^ s) div 2 ^ (s + 1))"

text \<open>
  \<^verbatim>\<open>Math.round((i / allSegments.length) * 90)\<close> in this arithmetic: the quotient is
  rounded to a double, its product with 90 is rounded to a double, and that is rounded
  to an integer. The list of a run is never empty, so \<open>n\<close> is not 0.
\<close>

definition synthesisProgress :: "nat \<Rightarrow> nat \<Rightarrow> int" where
  "synthesisProgress i n =
     (case toDouble (int i) (int n) of
        (m, s) \<Rightarrow> mathRound (toDouble (m * 90) (2 ^ s)))"

text \<open>Lines 331-337: the progress reported before the segment at index \<open>i\<close>.\<close>

definition segmentProgress :: "nat \<Rightarrow> nat \<Rightarrow> 'd PodcastSegment \<Rightarrow> Progress" where
  "segmentProgress n i seg =
     \<lparr>percent = synthesisProgress i n,
      status = ''Synthesizing: '' @ speaker seg,
      stage = ''Mastering Phase ['' @ natToString (i + 1) @ ''/'' @ natToString n @ '']''\<rparr>"

text \<open>
  Lines 339-352: the voice of the segment, then the synthesis by the engine of that
  voice. Reading \<^verbatim>\<open>voice.engine\<close> of an unresolved voice throws a type error.
\<close>

definition synthesizeVoice ::
  "'d Collaborators \<Rightarrow> ModelConfig \<Rightarrow> (string \<rightharpoonup> string) \<Rightarrow> nat \<Rightarrow> 'd PodcastSegment
     \<Rightarrow> thrown + 'd AudioBuffer" where
  "synthesizeVoice env ttsModel voiceMap i seg =
     (case resolveVoice VOICES ttsModel voiceMap (speaker seg) of
        None \<Rightarrow> Inl (Error ''Cannot read properties of undefined (reading 'engine')'')
      | Some voice \<Rightarrow>
          if engine voice = BROWSER
          then generateBrowserSpeech env i (seg_text seg) (voiceName voice)
          else (case geminiGenerateSpeech env i (seg_text seg) (voiceName voice) of
                  Inl e \<Rightarrow> Inl e
                | Inr base64 \<Rightarrow> decodeGeminiAudio env base64))"

text \<open>The variables of the loop: the objects, the two locals and the progress reports.\<close>

record 'd LoopState =
  store :: "segref \<Rightarrow> 'd PodcastSegment"
  currentTotalTime :: 'd
  audioBuffers :: "'d AudioBuffer list"
  reports :: "Progress list"

text \<open>
  The loop of lines 329-358, from index \<open>i\<close> over the remaining elements; \<open>n\<close> is
  \<^verbatim>\<open>allSegments.length\<close>. A thrown value leaves the loop with the state reached.
\<close>

fun synthesisLoop ::
  "'d::plus Collaborators \<Rightarrow> ModelConfig \<Rightarrow> (string \<rightharpoonup> string) \<Rightarrow> nat \<Rightarrow> nat \<Rightarrow> segref list
     \<Rightarrow> 'd LoopState \<Rightarrow> thrown option \<times> 'd LoopState" where
  "synthesisLoop env ttsModel voiceMap n i [] s = (None, s)"
| "synthesisLoop env ttsModel voiceMap n i (r # rs) s =
     (let seg = store s r;
          s1 = s\<lparr>reports := reports s @ [segmentProgress n i seg]\<rparr>
      in case synthesizeVoice env ttsModel voiceMap i seg of
           Inl e \<Rightarrow> (Some e, s1)
         | Inr buffer \<Rightarrow>
             synthesisLoop env ttsModel voiceMap n (Suc i) rs
               (s1\<lparr>store := (store s1)
                      (r := (store s1 r)\<lparr>startTime := Some (currentTotalTime s1),
                                         duration := Some (buf_duration buffer)\<rparr>),
                    currentTotalTime := currentTotalTime s1 + buf_duration buffer,
                    audioBuffers := audioBuffers s1 @ [buffer]\<rparr>))"

text \<open>The state in which the loop starts (lines 318-327).\<close>

definition loopStart :: "'d::zero World \<Rightarrow> 'd LoopState" where
  "loopStart w =
     \<lparr>store = initialStore w, currentTotalTime = 0, audioBuffers = [], reports = []\<rparr>"

text \<open>Lines 362-365: the watermark of the free tier.\<close>

definition appendWatermark ::
  "'d Collaborators \<Rightarrow> UserTier \<Rightarrow> 'd AudioBuffer list \<Rightarrow> thrown + 'd AudioBuffer list" where
  "appendWatermark env t buffers =
     (if t = FREE
      then (case createWatermarkBuffer env of
              Inl e \<Rightarrow> Inl e
            | Inr watermark \<Rightarrow> Inr (buffers @ [watermark]))
      else Inr buffers)"

text \<open>Lines 368-370: the encoder of the export format.\<close>

definition encodeMaster :: "'d Collaborators \<Rightarrow> ExportFormat \<Rightarrow> 'd AudioBuffer \<Rightarrow> Blob" where
  "encodeMaster env fmt fullBuffer =
     (if fmt = MP3 \<or> fmt = OGG then audioBufferToMp3 env fullBuffer
      else audioBufferToWav env fullBuffer)"

text \<open>
  Lines 367-390: assembly, encoding, subtitles and the publication of the artefacts, from
  the buffers to concatenate and the segment objects in the order of the run.
\<close>

definition publishMaster ::
  "'d Collaborators \<Rightarrow> ModelConfig \<Rightarrow> 'd AudioBuffer list \<Rightarrow> 'd PodcastSegment list \<Rightarrow> 'd World
     \<Rightarrow> 'd World" where
  "publishMaster env ttsModel buffers segs w =
     (let fullBuffer = concatenateAudioBuffers env buffers;
          finalBlob = encodeMaster env (exportFormat (state w)) fullBuffer;
          srt = generateSRT env segs;
          url = createObjectURL env finalBlob;
          w3 = w\<lparr>fullAudioUrl := Some url,
                 srtUrl := Some (createObjectURL env
                                   \<lparr>blob_content = srt, blob_type = ''text/plain''\<rparr>)\<rparr>;
          w4 = setProgress \<lparr>percent = 100, status = ''Broadcast Ready!'',
                            stage = ''Complete''\<rparr> w3;
          w5 = addLog env info ''Master tape generated successfully.'' w4
      in w5\<lparr>history := take 20
               (\<lparr>hist_id = randomUUID env,
                 hist_topic = (if topic w = [] then ''Untitled Episode'' else topic w),
                 hist_timestamp = dateNow env,
                 hist_script = script w,
                 hist_audioUrl = Some url,
                 hist_coverArtUrl =
                   (case coverArtUrl w of
                      None \<Rightarrow> None
                    | Some c \<Rightarrow> if c = [] then None else Some c),
                 srtContent = Some srt,
                 modelUsed = Some (cfg_name ttsModel),
                 tokensUsed = Some ((length (script w) + 3) div 4)\<rparr>
                # history w5)\<rparr>)"

text \<open>
  The body of the \<^verbatim>\<open>try\<close> block (lines 322-392), from the world \<open>w\<close> reached before
  it. The result is the thrown value, if any, and the world at that point. The reset of
  the progress display that line 392 schedules for three seconds later is not part of
  the run.
\<close>

definition productionBody ::
  "'d::{zero,plus} Collaborators \<Rightarrow> ModelConfig \<Rightarrow> 'd World \<Rightarrow> thrown option \<times> 'd World" where
  "productionBody env ttsModel w =
     (let refs = allSegments w;
          (err, s) = synthesisLoop env ttsModel (speakerVoiceMap (state w)) (length refs) 0 refs
                       (loopStart w);
          w1 = w\<lparr>heap := (\<lambda>a. store s (ScriptRef a)),
                 progressCalls := progressCalls w @ reports s\<rparr>
      in case err of
           Some e \<Rightarrow> (Some e, w1)
         | None \<Rightarrow>
             (let w2 = setProgress \<lparr>percent = 95, status = ''Mastering Final Mix...'',
                                    stage = ''Post-Production''\<rparr> w1
              in case appendWatermark env (tier (state w)) (audioBuffers s) of
                   Inl e \<Rightarrow> (Some e, w2)
                 | Inr buffers \<Rightarrow>
                     (None, publishMaster env ttsModel buffers (map (store s) refs) w2)))"

text \<open>Lines 310-316: the run is marked as started and the previous artefacts are cleared.\<close>

definition startProduction :: "'d Collaborators \<Rightarrow> ModelConfig \<Rightarrow> 'd World \<Rightarrow> 'd World" where
  "startProduction env ttsModel w =
     addLog env info (''Production pipeline online: '' @ cfg_name ttsModel @ ''.'')
       (w\<lparr>state := (state w)\<lparr>isGenerating := True\<rparr>, fullAudioUrl := None, srtUrl := None\<rparr>)"

text \<open>
  \<^verbatim>\<open>err.message\<close> as the template literal of line 394 prints it; reading the property
  of \<^verbatim>\<open>undefined\<close> or \<^verbatim>\<open>null\<close> throws a type error.
\<close>

definition messageText :: "thrown \<Rightarrow> thrown + string" where
  "messageText err =
     (case err of
        ThrownUndefined \<Rightarrow> Inl (Error ''Cannot read properties of undefined (reading 'message')'')
      | ThrownNull \<Rightarrow> Inl (Error ''Cannot read properties of null (reading 'message')'')
      | ThrownValue m j \<Rightarrow>
          Inr (case m of
                 MessageUndefined \<Rightarrow> ''undefined''
               | MessageNull \<Rightarrow> ''null''
               | MessageString t \<Rightarrow> t
               | MessageArrayLike b t \<Rightarrow> t
               | MessageOther t \<Rightarrow> t))"

text \<open>
  Lines 393-398: the \<^verbatim>\<open>catch\<close> and \<^verbatim>\<open>finally\<close> blocks, from what the \<^verbatim>\<open>try\<close> block
  threw, if anything. The \<^verbatim>\<open>catch\<close> block logs and reports the failure and does not throw
  again; a type error raised in it (first component) is thrown by the handler. The
  \<^verbatim>\<open>finally\<close> block runs in every case.
\<close>

definition settleProduction ::
  "'d Collaborators \<Rightarrow> thrown option \<Rightarrow> 'd World \<Rightarrow> thrown option \<times> 'd World" where
  "settleProduction env thrownInTry w =
     (case thrownInTry of
        None \<Rightarrow> (None, w\<lparr>state := (state w)\<lparr>isGenerating := False\<rparr>\<rparr>)
      | Some err \<Rightarrow>
          (case messageText err of
             Inl typeError \<Rightarrow> (Some typeError, w\<lparr>state := (state w)\<lparr>isGenerating := False\<rparr>\<rparr>)
           | Inr txt \<Rightarrow>
               (let w4 = setProgress \<lparr>percent = 0, status = ''Pipeline Error'',
                                      stage = ''Failure''\<rparr>
                           (addLog env error (''Production failed: '' @ txt) w)
                in (None, w4\<lparr>state := (state w4)\<lparr>isGenerating := False\<rparr>\<rparr>))))"

text \<open>
  The whole handler. The first component of the result is the value with which the
  returned promise rejects, if it does; \<open>None\<close> means that the promise resolves.
  \<^verbatim>\<open>stopCurrentPlayback\<close> touches the playback state only, which is not part of the world.
\<close>

definition handlePodcastProduction ::
  "'d::{zero,plus} Collaborators \<Rightarrow> 'd World \<Rightarrow> thrown option \<times> 'd World" where
  "handlePodcastProduction env w =
     (if isGenerating (state w) \<or> segments w = [] then (None, w)
      else if \<not> hasAudioContext w then (None, w)
      else case ensureAudioContext env of
        Some e \<Rightarrow> (Some e, w)
      | None \<Rightarrow>
         (case selectModel \<lparr>task_type = ''audio_synthesis'', quality = app_quality (state w),
                            requiresReasoning = None\<rparr> (apiKeys (state w)) of
            Inl e \<Rightarrow> (Some e, w\<lparr>state := (state w)\<lparr>isGenerating := True\<rparr>,
                                fullAudioUrl := None, srtUrl := None\<rparr>)
          | Inr ttsDecision \<Rightarrow>
              (case model ttsDecision of
                 None \<Rightarrow> (Some (Error ''Cannot read properties of undefined (reading 'name')''),
                          w\<lparr>state := (state w)\<lparr>isGenerating := True\<rparr>,
                            fullAudioUrl := None, srtUrl := None\<rparr>)
               | Some ttsModel \<Rightarrow>
                   (let (thrownInTry, w3) =
                          productionBody env ttsModel (startProduction env ttsModel w)
                    in settleProduction env thrownInTry w3))))"

section \<open>Vocabulary for the statements about a run\<close>

text \<open>The guards of lines 305-309 let the run start.\<close>

definition runnable :: "'d Collaborators \<Rightarrow> 'd World \<Rightarrow> bool" where
  "runnable env w \<longleftrightarrow>
     \<not> isGenerating (state w) \<and> segments w \<noteq> [] \<and> hasAudioContext w
     \<and> ensureAudioContext env = None"

text \<open>The routing decision of the run (line 315) selects the model \<open>m\<close>.\<close>

definition ttsModelOf :: "'d World \<Rightarrow> ModelConfig option" where
  "ttsModelOf w =
     (case selectModel \<lparr>task_type = ''audio_synthesis'', quality = app_quality (state w),
                        requiresReasoning = None\<rparr> (apiKeys (state w)) of
        Inl e \<Rightarrow> None
      | Inr ttsDecision \<Rightarrow> model ttsDecision)"

text \<open>
  The outcome that the synthesis of each element has, in the order of the list, the
  first element being at index \<open>i\<close>; and the outcomes for the segments of a run.
\<close>

definition loopOutcomes ::
  "'d Collaborators \<Rightarrow> ModelConfig \<Rightarrow> (string \<rightharpoonup> string) \<Rightarrow> nat \<Rightarrow> segref list
     \<Rightarrow> (segref \<Rightarrow> 'd PodcastSegment) \<Rightarrow> (thrown + 'd AudioBuffer) list" where
  "loopOutcomes env ttsModel voiceMap i rs st =
     map (\<lambda>(j, r). synthesizeVoice env ttsModel voiceMap j (st r)) (enumerate i rs)"

definition synthesisOutcomes ::
  "'d Collaborators \<Rightarrow> ModelConfig \<Rightarrow> 'd World \<Rightarrow> (thrown + 'd AudioBuffer) list" where
  "synthesisOutcomes env ttsModel w =
     loopOutcomes env ttsModel (speakerVoiceMap (state w)) 0 (allSegments w) (initialStore w)"

text \<open>The loop of a run, as the body calls it, and the state after its first \<open>k\<close> iterations.\<close>

definition runLoop ::
  "'d::{zero,plus} Collaborators \<Rightarrow> ModelConfig \<Rightarrow> 'd World \<Rightarrow> thrown option \<times> 'd LoopState" where
  "runLoop env m w =
     synthesisLoop env m (speakerVoiceMap (state w)) (length (allSegments w)) 0
       (allSegments w) (loopStart w)"

definition stateAfter ::
  "'d::{zero,plus} Collaborators \<Rightarrow> ModelConfig \<Rightarrow> 'd World \<Rightarrow> nat \<Rightarrow> 'd LoopState" where
  "stateAfter env m w k =
     snd (synthesisLoop env m (speakerVoiceMap (state w)) (length (allSegments w)) 0
            (take k (allSegments w)) (loopStart w))"


section \<open>An example run\<close>

text \<open>
  A run on which the statements below are instantiated: durations are natural numbers,
  the speech of a line lasts as long as its text, and the synthesis for the segment at
  index \<open>failAt\<close> throws. The world has two script segments, no keys and the free tier.
\<close>

definition exampleEnv :: "nat \<Rightarrow> nat Collaborators" where
  "exampleEnv failAt =
     \<lparr>ensureAudioContext = None,
      generateBrowserSpeech =
        (\<lambda>i txt vn. if i = failAt then Inl (Error ''speech synthesis failed'')
                     else Inr \<lparr>buf_duration = length txt, buf_samples = [int i]\<rparr>),
      geminiGenerateSpeech = (\<lambda>i txt vn. Inr txt),
      decodeGeminiAudio = (\<lambda>b. Inr \<lparr>buf_duration = length b, buf_samples = []\<rparr>),
      createWatermarkBuffer = Inr \<lparr>buf_duration = 1, buf_samples = [- 1]\<rparr>,
      concatenateAudioBuffers =
        (\<lambda>bs. \<lparr>buf_duration = foldl (+) 0 (map buf_duration bs),
                buf_samples = concat (map buf_samples bs)\<rparr>),
      audioBufferToMp3 =
        (\<lambda>b. \<lparr>blob_content = ''mp3:'' @ natToString (buf_duration b), blob_type = ''audio/mp3''\<rparr>),
      audioBufferToWav =
        (\<lambda>b. \<lparr>blob_content = ''wav:'' @ natToString (buf_duration b), blob_type = ''audio/wav''\<rparr>),
      generateSRT =
        (\<lambda>segs. concat (map (\<lambda>g. speaker g @ ''@'' @
                    (case startTime g of None \<Rightarrow> ''?'' | Some t \<Rightarrow> natToString t) @ '';'') segs)),
      createObjectURL = (\<lambda>b. ''blob:'' @ blob_content b),
      dateNow = 0,
      randomUUID = ''id''\<rparr>"

definition exampleWorld :: "nat World" where
  "exampleWorld =
     \<lparr>state = \<lparr>tier = FREE, app_quality = balanced, exportFormat = OGG,
                apiKeys = \<lparr>pollinationsKey = None, openaiKey = None, mistralKey = None\<rparr>,
                isGenerating = False, introText = ''Hi'', outroText = ''Bye'',
                speakerVoiceMap = [''Host'' \<mapsto> ''pro-1'', ''Guest'' \<mapsto> ''pro-2'']\<rparr>,
      segments = [0, 1],
      heap = (\<lambda>a. \<lparr>seg_id = ''seg'', speaker = (if a = 0 then ''Host'' else ''Guest''),
                     seg_text = ''line'', audioUrl = None, seg_status = pending,
                     duration = None, startTime = None\<rparr>),
      hasAudioContext = True, script = ''Host: line'', topic = [], coverArtUrl = None,
      fullAudioUrl = Some ''old'', srtUrl = Some ''old'', progressCalls = [], logs = [],
      history = []\<rparr>"

definition exampleModel :: ModelConfig where
  "exampleModel =
     \<lparr>cfg_id = ''edge-neural-voices'', cfg_provider = openai,
      cfg_name = ''Microsoft Edge Neural (Free)'', capabilities = [audio_cap],
      costPerMtok = None, costPerRequest = Some 0, rateLimit = 1000,
      isActive = True, requiresAuth = auth_none\<rparr>"

definition exampleBuffers :: "nat AudioBuffer list" where
  "exampleBuffers =
     [\<lparr>buf_duration = 2, buf_samples = [0]\<rparr>, \<lparr>buf_duration = 4, buf_samples = [1]\<rparr>,
      \<lparr>buf_duration = 4, buf_samples = [2]\<rparr>, \<lparr>buf_duration = 3, buf_samples = [3]\<rparr>]"



section \<open>Properties of the retry policy\<close>

lemma backoff_shift:
  "(d::nat) # map (\<lambda>i. d * 2 * 2 ^ i) [0..<m] = map (\<lambda>i. d * 2 ^ i) [0..<Suc m]"
proof -
  have "[0..<Suc m] = 0 # map Suc [0..<m]"
    by (simp add: upt_conv_Cons map_Suc_upt del: upt_Suc)
  then show ?thesis by (simp add: comp_def del: upt_Suc)
qed

text \<open>
  If the first \<open>m\<close> invocations fail rate-limited and invocation \<open>m\<close> either is the
  last one allowed (and is classified without a type error) or is not rate-limited, the
  outcome of the wrapper is the outcome of invocation \<open>m\<close>, after \<open>m\<close> sleeps that
  double each time.
\<close>

lemma withRetry_run:
  "m \<le> retries \<Longrightarrow>
   (\<forall>i<m. \<exists>e. fn (k + i) = Inl e \<and> isRateLimit e = Inr True) \<Longrightarrow>
   (m = retries \<and> (\<forall>e. fn (k + m) = Inl e \<longrightarrow> (\<exists>b. isRateLimit e = Inr b))
    \<or> (\<forall>e. fn (k + m) = Inl e \<longrightarrow> isRateLimit e = Inr False)) \<Longrightarrow>
   withRetry fn k retries delay = (fn (k + m), map (\<lambda>i. delay * 2 ^ i) [0..<m])"
proof (induction m arbitrary: k retries delay)
  case 0
  then show ?case
    by (cases "fn k") (auto simp: withRetry.simps [of fn k])
next
  case (Suc m)
  from Suc.prems(2) obtain e where e: "fn k = Inl e" "isRateLimit e = Inr True"
    by (metis add.right_neutral zero_less_Suc)
  from Suc.prems(1) have pos: "0 < retries" by simp
  have a: "m \<le> retries - 1" using Suc.prems(1) by simp
  have b: "\<forall>i<m. \<exists>e. fn (Suc k + i) = Inl e \<and> isRateLimit e = Inr True"
    using Suc.prems(2) by (metis Suc_less_eq add_Suc_shift)
  have c: "m = retries - 1 \<and> (\<forall>e. fn (Suc k + m) = Inl e \<longrightarrow> (\<exists>b. isRateLimit e = Inr b))
             \<or> (\<forall>e. fn (Suc k + m) = Inl e \<longrightarrow> isRateLimit e = Inr False)"
    using Suc.prems(3) by auto
  have "withRetry fn (Suc k) (retries - 1) (delay * 2)
          = (fn (Suc k + m), map (\<lambda>i. delay * 2 * 2 ^ i) [0..<m])"
    by (rule Suc.IH [OF a b c])
  then show ?case
    using e pos backoff_shift [of delay m]
    by (simp add: withRetry.simps [of fn k] del: upt_Suc)
qed

text \<open>\<open>str_includes\<close> is the substring relation.\<close>

lemma str_includes_sublist: "str_includes s t \<longleftrightarrow> sublist t s"
  by (induction s) (simp_all add: sublist_Cons_right)

text \<open>
  An object with a string or no message that serializes to a string is classified
  without a type error, by the three tests of line 23.
\<close>

lemma isRateLimit_plain:
  "isRateLimit (ThrownValue (MessageString t) (Stringified j))
     = Inr (str_includes t ''429'' \<or> str_includes j ''429''
            \<or> str_includes j ''RESOURCE_EXHAUSTED'')"
  "isRateLimit (ThrownValue MessageUndefined (Stringified j))
     = Inr (str_includes j ''429'' \<or> str_includes j ''RESOURCE_EXHAUSTED'')"
  by (simp_all add: isRateLimit_def stringify_def messageIncludes429_def messageOf_def)

lemma no_marker_plain:
  "\<not> hasRateLimitMarker (ThrownValue (MessageString t) (Stringified j)) \<Longrightarrow>
   isRateLimit (ThrownValue (MessageString t) (Stringified j)) = Inr False"
  by (simp add: isRateLimit_plain hasRateLimitMarker_def messageOf_def stringify_def)

text \<open>
  When the classification itself throws, because the value cannot be serialized or its
  message has no \<^verbatim>\<open>includes\<close>, the value thrown replaces the error: nothing is retried
  and nothing is slept.
\<close>

lemma withRetry_classification_throws:
  "fn k = Inl e \<Longrightarrow> isRateLimit e = Inl t \<Longrightarrow> withRetry fn k retries delay = (Inl t, [])"
  by (simp add: withRetry.simps [of fn k])

text \<open>
  Claim C1, as amended. Take failures that are objects with a string message, or none,
  and that serialize to a string: such a failure is rate-limited when its message contains
  429, or its serialization contains 429 or RESOURCE_EXHAUSTED. For a call wrapped by
  \<open>withRetry\<close>: (1) a rate-limited failure, with retries remaining, sleeps for the
  current delay and retries with one retry less and the delay doubled; (2) a failure that
  is classified as not rate-limited, in particular one that carries no marker at all, is
  thrown at once, with no sleep; (3) when every invocation fails rate-limited, the error
  of the last invocation allowed (number \<open>retries\<close> after the first) is thrown as it is,
  after \<open>retries\<close> sleeps of \<open>delay\<close>, \<open>2 * delay\<close>, ...; (4) with the defaults (3
  retries, 2000 ms), a call that fails rate-limited twice and then succeeds with \<open>v\<close>
  returns \<open>v\<close> after exactly the two sleeps 2000 and 4000.
\<close>

theorem withRetry_backoff_policy:
  "isRateLimit (ThrownValue (MessageString t) (Stringified j))
     = Inr (str_includes t ''429'' \<or> str_includes j ''429''
            \<or> str_includes j ''RESOURCE_EXHAUSTED'')
   \<and> isRateLimit (ThrownValue MessageUndefined (Stringified j))
     = Inr (str_includes j ''429'' \<or> str_includes j ''RESOURCE_EXHAUSTED'')
   \<and> (fn k = Inl e \<and> isRateLimit e = Inr True \<and> 0 < retries \<longrightarrow>
      withRetry fn k retries delay =
        (fst (withRetry fn (Suc k) (retries - 1) (delay * 2)),
         delay # snd (withRetry fn (Suc k) (retries - 1) (delay * 2))))
   \<and> (fn k = Inl e \<and> isRateLimit e = Inr False \<longrightarrow> withRetry fn k retries delay = (Inl e, []))
   \<and> (fn k = Inl (ThrownValue (MessageString t) (Stringified j))
        \<and> \<not> hasRateLimitMarker (ThrownValue (MessageString t) (Stringified j)) \<longrightarrow>
      withRetry fn k retries delay = (Inl (ThrownValue (MessageString t) (Stringified j)), []))
   \<and> ((\<forall>i\<le>retries. \<exists>x. fn (k + i) = Inl x \<and> isRateLimit x = Inr True) \<longrightarrow>
        withRetry fn k retries delay
          = (fn (k + retries), map (\<lambda>i. delay * 2 ^ i) [0..<retries]))
   \<and> (fn 0 = Inl e1 \<and> isRateLimit e1 = Inr True \<and> fn 1 = Inl e2 \<and> isRateLimit e2 = Inr True
        \<and> fn 2 = Inr v \<longrightarrow>
        withRetryDefault fn = (Inr v, [2000, 4000]))"
proof (intro conjI impI)
  assume "fn k = Inl e \<and> isRateLimit e = Inr True \<and> 0 < retries"
  then show "withRetry fn k retries delay =
        (fst (withRetry fn (Suc k) (retries - 1) (delay * 2)),
         delay # snd (withRetry fn (Suc k) (retries - 1) (delay * 2)))"
    by (simp add: withRetry.simps [of fn k] split_beta)
next
  assume "fn k = Inl e \<and> isRateLimit e = Inr False"
  then show "withRetry fn k retries delay = (Inl e, [])"
    by (simp add: withRetry.simps [of fn k])
next
  assume "fn k = Inl (ThrownValue (MessageString t) (Stringified j))
        \<and> \<not> hasRateLimitMarker (ThrownValue (MessageString t) (Stringified j))"
  then show "withRetry fn k retries delay
               = (Inl (ThrownValue (MessageString t) (Stringified j)), [])"
    using no_marker_plain [of t j] by (simp add: withRetry.simps [of fn k])
next
  assume a: "\<forall>i\<le>retries. \<exists>x. fn (k + i) = Inl x \<and> isRateLimit x = Inr True"
  have "\<forall>i<retries. \<exists>x. fn (k + i) = Inl x \<and> isRateLimit x = Inr True"
    using a by simp
  moreover have "\<forall>e. fn (k + retries) = Inl e \<longrightarrow> (\<exists>b. isRateLimit e = Inr b)"
    using a by (metis Inl_inject order_refl)
  ultimately show "withRetry fn k retries delay
          = (fn (k + retries), map (\<lambda>i. delay * 2 ^ i) [0..<retries])"
    by (intro withRetry_run) simp_all
next
  assume a: "fn 0 = Inl e1 \<and> isRateLimit e1 = Inr True \<and> fn 1 = Inl e2
      \<and> isRateLimit e2 = Inr True \<and> fn 2 = Inr v"
  then have f: "fn 0 = Inl e1" "fn (Suc 0) = Inl e2" "fn (Suc (Suc 0)) = Inr v"
    and r: "isRateLimit e1 = Inr True" "isRateLimit e2 = Inr True"
    by (simp_all add: numeral_2_eq_2)
  have "withRetry fn (Suc (Suc 0)) 1 8000 = (Inr v, [])"
    using f by (simp add: withRetry.simps [of fn "Suc (Suc 0)"])
  then have "withRetry fn (Suc 0) 2 4000 = (Inr v, [4000])"
    using f r by (simp add: withRetry.simps [of fn "Suc 0"])
  then have "withRetry fn 0 3 2000 = (Inr v, [2000, 4000])"
    using f r by (simp add: withRetry.simps [of fn 0])
  then show "withRetryDefault fn = (Inr v, [2000, 4000])"
    by (simp add: withRetryDefault_def)
qed (simp_all add: isRateLimit_plain)

text \<open>
  The policy at concrete calls: the classification of four errors; two rate-limited
  failures and then the value 7; a failure with status 500, which carries no marker; a
  call that is rate-limited at every attempt, whose last error comes back after the three
  sleeps of the default budget; and one step of the retry.
\<close>

theorem withRetry_backoff_policy_witness:
  "isRateLimit (Error ''HTTP 429 Too Many Requests'') = Inr True
   \<and> isRateLimit (ThrownValue MessageUndefined (Stringified ''{status:RESOURCE_EXHAUSTED}''))
       = Inr True
   \<and> isRateLimit (ThrownValue MessageUndefined (Stringified ''{code:429}'')) = Inr True
   \<and> isRateLimit (Error ''HTTP 500'') = Inr False
   \<and> withRetryDefault
        (\<lambda>k. if k < 2 then Inl (Error ''HTTP 429 Too Many Requests'') else Inr (7::nat))
       = (Inr 7, [2000, 4000])
   \<and> withRetryDefault (\<lambda>k. Inl (Error ''HTTP 500'') :: thrown + nat)
       = (Inl (Error ''HTTP 500''), [])
   \<and> withRetryDefault
        (\<lambda>k. if k < 3 then Inl (ThrownValue MessageUndefined (Stringified ''{code:429}''))
              else Inl (ThrownValue MessageUndefined
                          (Stringified ''{status:RESOURCE_EXHAUSTED}'')) :: thrown + nat)
       = (Inl (ThrownValue MessageUndefined (Stringified ''{status:RESOURCE_EXHAUSTED}'')),
          [2000, 4000, 8000])
   \<and> withRetry
        (\<lambda>k. Inl (ThrownValue MessageUndefined (Stringified ''{code:429}'')) :: thrown + nat)
        0 1 2000
       = (fst (withRetry
                (\<lambda>k. Inl (ThrownValue MessageUndefined (Stringified ''{code:429}'')) :: thrown + nat)
                1 0 4000),
          2000 # snd (withRetry
                (\<lambda>k. Inl (ThrownValue MessageUndefined (Stringified ''{code:429}'')) :: thrown + nat)
                1 0 4000))"
proof -
  let ?q = "ThrownValue MessageUndefined (Stringified ''{status:RESOURCE_EXHAUSTED}'')"
  let ?c = "ThrownValue MessageUndefined (Stringified ''{code:429}'')"
  let ?e = "Error ''HTTP 429 Too Many Requests''"
  let ?f = "\<lambda>k. if k < 3 then Inl ?c else Inl ?q :: thrown + nat"
  have r1: "isRateLimit ?e = Inr True"
    using withRetry_backoff_policy [where t = "''HTTP 429 Too Many Requests''" and j = "''{}''",
        THEN conjunct1]
    by (simp add: Error_def)
  have r2: "isRateLimit ?q = Inr True"
    using withRetry_backoff_policy [where j = "''{status:RESOURCE_EXHAUSTED}''",
        THEN conjunct2, THEN conjunct1]
    by simp
  have r3: "isRateLimit ?c = Inr True"
    using withRetry_backoff_policy [where j = "''{code:429}''", THEN conjunct2, THEN conjunct1]
    by simp
  have r4: "isRateLimit (Error ''HTTP 500'') = Inr False"
    using withRetry_backoff_policy [where t = "''HTTP 500''" and j = "''{}''", THEN conjunct1]
    by (simp add: Error_def)
  have a: "withRetryDefault (\<lambda>k. if k < 2 then Inl ?e else Inr (7::nat)) = (Inr 7, [2000, 4000])"
    using withRetry_backoff_policy
            [where fn = "\<lambda>k. if k < 2 then Inl ?e else Inr (7::nat)" and ?e1.0 = ?e
               and ?e2.0 = ?e and v = 7,
             THEN conjunct2, THEN conjunct2, THEN conjunct2, THEN conjunct2, THEN conjunct2,
             THEN conjunct2] r1
    by simp
  have b: "withRetryDefault (\<lambda>k. Inl (Error ''HTTP 500'') :: thrown + nat)
             = (Inl (Error ''HTTP 500''), [])"
    using withRetry_backoff_policy
            [where fn = "\<lambda>k. Inl (Error ''HTTP 500'') :: thrown + nat" and k = 0
               and e = "Error ''HTTP 500''" and retries = 3 and delay = 2000,
             THEN conjunct2, THEN conjunct2, THEN conjunct2, THEN conjunct1] r4
    by (simp add: withRetryDefault_def)
  have m: "map (\<lambda>i. 2000 * 2 ^ i) [0..<3::nat] = [2000, 4000, 8000::nat]"
    by (simp add: upt_rec)
  have all: "\<forall>i\<le>(3::nat). \<exists>x. ?f (0 + i) = Inl x \<and> isRateLimit x = Inr True"
    using r2 r3 by simp
  have c: "withRetryDefault ?f = (Inl ?q, [2000, 4000, 8000])"
    using withRetry_backoff_policy
            [where fn = ?f and k = 0 and retries = 3 and delay = 2000,
             THEN conjunct2, THEN conjunct2, THEN conjunct2, THEN conjunct2, THEN conjunct2,
             THEN conjunct1]
          all m
    by (simp add: withRetryDefault_def)
  have d: "withRetry (\<lambda>k. Inl ?c :: thrown + nat) 0 1 2000
       = (fst (withRetry (\<lambda>k. Inl ?c :: thrown + nat) 1 0 4000),
          2000 # snd (withRetry (\<lambda>k. Inl ?c :: thrown + nat) 1 0 4000))"
    using withRetry_backoff_policy
            [where fn = "\<lambda>k. Inl ?c :: thrown + nat" and k = 0 and e = ?c and retries = 1
               and delay = 2000,
             THEN conjunct2, THEN conjunct2, THEN conjunct1] r3
    by simp
  show ?thesis using r1 r2 r3 r4 a b c d by blast
qed

text \<open>
  The claim as stated, for a marker in the message or in the serialization, fails in two
  ways. An error whose message carries RESOURCE_EXHAUSTED, and which serializes to an
  empty object, is thrown at once although three retries remain. And an object whose
  message carries 429 but which cannot be serialized is not retried either: the type
  error of the serialization is thrown in its place.
\<close>

theorem withRetry_backoff_policy_counterexample:
  "hasRateLimitMarker (Error ''RESOURCE_EXHAUSTED: quota exceeded'')
   \<and> withRetryDefault (\<lambda>k. Inl (Error ''RESOURCE_EXHAUSTED: quota exceeded'') :: thrown + nat)
       = (Inl (Error ''RESOURCE_EXHAUSTED: quota exceeded''), [])
   \<and> hasRateLimitMarker
        (ThrownValue (MessageString ''429 Too Many Requests'')
           (StringifyThrows ''Converting circular structure to JSON''))
   \<and> withRetryDefault
        (\<lambda>k. Inl (ThrownValue (MessageString ''429 Too Many Requests'')
                     (StringifyThrows ''Converting circular structure to JSON'')) :: thrown + nat)
       = (Inl (Error ''Converting circular structure to JSON''), [])
   \<and> Error ''Converting circular structure to JSON''
       \<noteq> ThrownValue (MessageString ''429 Too Many Requests'')
            (StringifyThrows ''Converting circular structure to JSON'')"
  by (simp add: hasRateLimitMarker_def withRetryDefault_def withRetry.simps [of _ 0]
        isRateLimit_def stringify_def messageOf_def messageIncludes429_def Error_def)

section \<open>Properties of the router\<close>

lemma registry_lookups:
  "\<exists>y. MODEL_REGISTRY ''gemini-3-pro-preview'' = Some y"
  "\<exists>y. MODEL_REGISTRY ''pollinations-script-paid'' = Some y"
  "\<exists>y. MODEL_REGISTRY ''pollinations-script-free'' = Some y"
  "\<exists>y. MODEL_REGISTRY ''pollinations-image-flux'' = Some y"
  "\<exists>y. MODEL_REGISTRY ''pollinations-image-free'' = Some y"
  "\<exists>y. MODEL_REGISTRY ''gemini-native-audio'' = Some y"
  "\<exists>y. MODEL_REGISTRY ''edge-neural-voices'' = Some y"
  by (simp_all add: MODEL_REGISTRY_def)

text \<open>
  Claim C2. The decision of \<open>selectModel\<close> is a function of its arguments alone, and of
  these it reads only the task type, the quality, whether the reasoning flag is set and
  whether a Pollinations key is present: two calls that agree on these four return the
  same result, whatever else differs. In particular two calls with the same arguments
  return the same decision (same modelId, model, reason and estimatedCost).
\<close>

theorem selectModel_deterministic:
  "task_type t1 = task_type t2 \<Longrightarrow> quality t1 = quality t2 \<Longrightarrow>
   truthyFlag (requiresReasoning t1) = truthyFlag (requiresReasoning t2) \<Longrightarrow>
   truthyStr (pollinationsKey k1) = truthyStr (pollinationsKey k2) \<Longrightarrow>
   selectModel t1 k1 = selectModel t2 k2"
  unfolding selectModel_def Let_def by simp

theorem selectModel_deterministic_witness:
  "selectModel
     \<lparr>task_type = ''script_generation'', quality = balanced, requiresReasoning = None\<rparr>
     \<lparr>pollinationsKey = Some ''pk-one'', openaiKey = None, mistralKey = None\<rparr>
   = selectModel
     \<lparr>task_type = ''script_generation'', quality = balanced, requiresReasoning = Some False\<rparr>
     \<lparr>pollinationsKey = Some ''pk-two'', openaiKey = Some ''sk'', mistralKey = Some ''mk''\<rparr>"
  by (rule selectModel_deterministic) (simp_all add: truthyFlag_def truthyStr_def)

text \<open>
  Claim C3, as amended. For a script_generation request of balanced quality whose
  reasoning flag is not set, the router returns the paid mid-tier model
  (pollinations-script-paid, cost 0.002) when a non-empty Pollinations key is present,
  and the free model (pollinations-script-free, cost 0) otherwise.
\<close>

theorem selectModel_balanced_script:
  "task_type t = ''script_generation'' \<Longrightarrow> quality t = balanced \<Longrightarrow>
   \<not> truthyFlag (requiresReasoning t) \<Longrightarrow>
   (\<exists>d. selectModel t k = Inr d
      \<and> (modelId d = ''pollinations-script-paid'' \<longleftrightarrow> truthyStr (pollinationsKey k))
      \<and> (modelId d = ''pollinations-script-free'' \<longleftrightarrow> \<not> truthyStr (pollinationsKey k))
      \<and> model d = MODEL_REGISTRY (modelId d)
      \<and> estimatedCost d = (if truthyStr (pollinationsKey k) then 0.002 else 0))"
  by (simp add: selectModel_def)

theorem selectModel_balanced_script_witness:
  "(\<exists>d. selectModel
          \<lparr>task_type = ''script_generation'', quality = balanced, requiresReasoning = None\<rparr>
          \<lparr>pollinationsKey = Some ''pk'', openaiKey = None, mistralKey = None\<rparr> = Inr d
        \<and> modelId d = ''pollinations-script-paid'' \<and> estimatedCost d = 0.002)
   \<and> (\<exists>d. selectModel
          \<lparr>task_type = ''script_generation'', quality = balanced, requiresReasoning = Some False\<rparr>
          \<lparr>pollinationsKey = Some [], openaiKey = Some ''sk'', mistralKey = None\<rparr> = Inr d
        \<and> modelId d = ''pollinations-script-free'' \<and> estimatedCost d = 0)"
  using selectModel_balanced_script
          [of "\<lparr>task_type = ''script_generation'', quality = balanced, requiresReasoning = None\<rparr>"
              "\<lparr>pollinationsKey = Some ''pk'', openaiKey = None, mistralKey = None\<rparr>"]
        selectModel_balanced_script
          [of "\<lparr>task_type = ''script_generation'', quality = balanced,
                requiresReasoning = Some False\<rparr>"
              "\<lparr>pollinationsKey = Some [], openaiKey = Some ''sk'', mistralKey = None\<rparr>"]
  by (auto simp: truthyFlag_def truthyStr_def)

text \<open>
  The claim as stated, for all values of the reasoning flag, fails: a balanced script
  request with the flag set goes to the reasoning model, with or without a key.
\<close>

theorem selectModel_balanced_script_counterexample:
  "selectModel
     \<lparr>task_type = ''script_generation'', quality = balanced, requiresReasoning = Some True\<rparr>
     \<lparr>pollinationsKey = Some ''pk'', openaiKey = None, mistralKey = None\<rparr>
   = Inr \<lparr>modelId = ''gemini-3-pro-preview'',
          model = MODEL_REGISTRY ''gemini-3-pro-preview'',
          reason = ''Advanced reasoning required or premium quality selected (Gemini 3 Pro)'',
          estimatedCost = 0.005\<rparr>
   \<and> ''gemini-3-pro-preview'' \<noteq> ''pollinations-script-paid''
   \<and> (0.005 :: real) \<noteq> 0.002
   \<and> selectModel
     \<lparr>task_type = ''script_generation'', quality = balanced, requiresReasoning = Some True\<rparr>
     \<lparr>pollinationsKey = None, openaiKey = None, mistralKey = None\<rparr>
   = Inr \<lparr>modelId = ''gemini-3-pro-preview'',
          model = MODEL_REGISTRY ''gemini-3-pro-preview'',
          reason = ''Advanced reasoning required or premium quality selected (Gemini 3 Pro)'',
          estimatedCost = 0.005\<rparr>
   \<and> ''gemini-3-pro-preview'' \<noteq> ''pollinations-script-free''
   \<and> (0.005 :: real) \<noteq> 0"
  by (simp add: selectModel_def truthyFlag_def truthyStr_def)

text \<open>
  Claim C4. On each of the three task kinds \<open>selectModel\<close> returns a decision, whose
  model is a registered one, for every quality and every set of keys; on any other task
  type it throws the error "Unsupported task: " followed by the type. It has no effect
  other than its result.
\<close>

theorem selectModel_total:
  "(task_type t \<in> {''script_generation'', ''image_generation'', ''audio_synthesis''} \<longrightarrow>
      (\<exists>d. selectModel t k = Inr d \<and> model d \<noteq> None))
   \<and> (task_type t \<notin> {''script_generation'', ''image_generation'', ''audio_synthesis''} \<longrightarrow>
      selectModel t k = Inl (Error (''Unsupported task: '' @ task_type t)))"
  by (auto simp: selectModel_def registry_lookups)

theorem selectModel_total_witness:
  "(\<exists>d. selectModel \<lparr>task_type = ''image_generation'', quality = premium, requiresReasoning = None\<rparr>
          \<lparr>pollinationsKey = None, openaiKey = None, mistralKey = None\<rparr> = Inr d
        \<and> model d \<noteq> None)
   \<and> selectModel \<lparr>task_type = ''video_generation'', quality = fast, requiresReasoning = None\<rparr>
        \<lparr>pollinationsKey = None, openaiKey = None, mistralKey = None\<rparr>
      = Inl (Error ''Unsupported task: video_generation'')"
  using selectModel_total
          [of "\<lparr>task_type = ''image_generation'', quality = premium, requiresReasoning = None\<rparr>"
              "\<lparr>pollinationsKey = None, openaiKey = None, mistralKey = None\<rparr>"]
        selectModel_total
          [of "\<lparr>task_type = ''video_generation'', quality = fast, requiresReasoning = None\<rparr>"
              "\<lparr>pollinationsKey = None, openaiKey = None, mistralKey = None\<rparr>"]
  by simp

section \<open>Properties of the synthesis loop\<close>

lemma synthesizeVoice_timing [simp]:
  "synthesizeVoice env m vm i (seg\<lparr>startTime := a, duration := b\<rparr>) = synthesizeVoice env m vm i seg"
  by (simp add: synthesizeVoice_def split: option.split)

lemma segmentProgress_timing [simp]:
  "segmentProgress n i (seg\<lparr>startTime := a, duration := b\<rparr>) = segmentProgress n i seg"
  by (simp add: segmentProgress_def)

lemma loopOutcomes_Nil [simp]: "loopOutcomes env m vm i [] st = []"
  by (simp add: loopOutcomes_def)

lemma loopOutcomes_Cons [simp]:
  "loopOutcomes env m vm i (r # rs) st
     = synthesizeVoice env m vm i (st r) # loopOutcomes env m vm (Suc i) rs st"
  by (simp add: loopOutcomes_def)

lemma loopOutcomes_update [simp]:
  "loopOutcomes env m vm i rs (st(r := (st r)\<lparr>startTime := a, duration := b\<rparr>))
     = loopOutcomes env m vm i rs st"
  by (induction rs arbitrary: i) simp_all

lemma loopOutcomes_length [simp]: "length (loopOutcomes env m vm i rs st) = length rs"
  by (simp add: loopOutcomes_def)

lemma loopOutcomes_append:
  "loopOutcomes env m vm i (xs @ ys) st
     = loopOutcomes env m vm i xs st @ loopOutcomes env m vm (i + length xs) ys st"
  by (induction xs arbitrary: i) simp_all

text \<open>The loop leaves alone the objects that are not in its list.\<close>

lemma loop_store_frame:
  "r \<notin> set rs \<Longrightarrow> store (snd (synthesisLoop env m vm n i rs s)) r = store s r"
  by (induction rs arbitrary: i s) (auto simp: Let_def split: sum.splits)

lemma loop_success:
  "loopOutcomes env m vm i rs (store s) = map Inr bufs \<Longrightarrow>
   fst (synthesisLoop env m vm n i rs s) = None
   \<and> audioBuffers (snd (synthesisLoop env m vm n i rs s)) = audioBuffers s @ bufs
   \<and> currentTotalTime (snd (synthesisLoop env m vm n i rs s))
       = foldl (+) (currentTotalTime s) (map buf_duration bufs)
   \<and> reports (snd (synthesisLoop env m vm n i rs s))
       = reports s @ map (\<lambda>(j, r). segmentProgress n j (store s r)) (enumerate i rs)"
proof (induction rs arbitrary: i s bufs)
  case Nil
  then show ?case by simp
next
  case (Cons r rs)
  from Cons.prems obtain b bs where bufs: "bufs = b # bs"
    and hd: "synthesizeVoice env m vm i (store s r) = Inr b"
    and tl: "loopOutcomes env m vm (Suc i) rs (store s) = map Inr bs"
    by (auto simp: Cons_eq_map_conv)
  let ?s' = "s\<lparr>reports := reports s @ [segmentProgress n i (store s r)],
                store := (store s)(r := (store s r)\<lparr>startTime := Some (currentTotalTime s),
                                                   duration := Some (buf_duration b)\<rparr>),
                currentTotalTime := currentTotalTime s + buf_duration b,
                audioBuffers := audioBuffers s @ [b]\<rparr>"
  have step: "synthesisLoop env m vm n i (r # rs) s = synthesisLoop env m vm n (Suc i) rs ?s'"
    using hd by (simp add: Let_def)
  have "loopOutcomes env m vm (Suc i) rs (store ?s') = map Inr bs"
    using tl by simp
  from Cons.IH [OF this]
  have ih: "fst (synthesisLoop env m vm n (Suc i) rs ?s') = None"
    "audioBuffers (snd (synthesisLoop env m vm n (Suc i) rs ?s')) = audioBuffers ?s' @ bs"
    "currentTotalTime (snd (synthesisLoop env m vm n (Suc i) rs ?s'))
       = foldl (+) (currentTotalTime ?s') (map buf_duration bs)"
    "reports (snd (synthesisLoop env m vm n (Suc i) rs ?s'))
       = reports ?s' @ map (\<lambda>(j, r). segmentProgress n j (store ?s' r)) (enumerate (Suc i) rs)"
    by blast+
  have rep: "map (\<lambda>(j, x). segmentProgress n j (store ?s' x)) (enumerate (Suc i) rs)
               = map (\<lambda>(j, x). segmentProgress n j (store s x)) (enumerate (Suc i) rs)"
    by (rule map_cong) (auto simp: fun_upd_def)
  show ?case
    unfolding step using ih rep by (simp add: bufs)
qed

text \<open>The loop changes nothing but the two timing fields of an object.\<close>

lemma loop_store_shape:
  "\<exists>a b. store (snd (synthesisLoop env m vm n i rs s)) r
           = (store s r)\<lparr>startTime := a, duration := b\<rparr>"
proof (induction rs arbitrary: i s)
  case Nil
  have "store s r = (store s r)\<lparr>startTime := startTime (store s r),
                                 duration := duration (store s r)\<rparr>"
    by simp
  then show ?case by (metis synthesisLoop.simps(1) snd_conv)
next
  case (Cons x rs)
  show ?case
  proof (cases "synthesizeVoice env m vm i (store s x)")
    case (Inl e)
    have "store s r = (store s r)\<lparr>startTime := startTime (store s r),
                                   duration := duration (store s r)\<rparr>"
      by simp
    moreover have "store (snd (synthesisLoop env m vm n i (x # rs) s)) r = store s r"
      using Inl by (simp add: Let_def)
    ultimately show ?thesis by metis
  next
    case (Inr b)
    let ?s' = "s\<lparr>reports := reports s @ [segmentProgress n i (store s x)],
                  store := (store s)(x := (store s x)\<lparr>startTime := Some (currentTotalTime s),
                                                     duration := Some (buf_duration b)\<rparr>),
                  currentTotalTime := currentTotalTime s + buf_duration b,
                  audioBuffers := audioBuffers s @ [b]\<rparr>"
    have step: "synthesisLoop env m vm n i (x # rs) s = synthesisLoop env m vm n (Suc i) rs ?s'"
      using Inr by (simp add: Let_def)
    from Cons.IH [of "Suc i" ?s'] obtain a c where
      "store (snd (synthesisLoop env m vm n (Suc i) rs ?s')) r
         = (store ?s' r)\<lparr>startTime := a, duration := c\<rparr>"
      by blast
    then have "store (snd (synthesisLoop env m vm n i (x # rs) s)) r
         = (store s r)\<lparr>startTime := a, duration := c\<rparr>"
      unfolding step by (cases "r = x") simp_all
    then show ?thesis by blast
  qed
qed

lemma loop_outcomes_stable:
  "loopOutcomes env m vm j xs (store (snd (synthesisLoop env m vm n i rs s)))
     = loopOutcomes env m vm j xs (store s)"
proof -
  have "synthesizeVoice env m vm k (store (snd (synthesisLoop env m vm n i rs s)) r)
          = synthesizeVoice env m vm k (store s r)" for k r
    using loop_store_shape [of env m vm n i rs s r] by auto
  then show ?thesis by (simp add: loopOutcomes_def)
qed

lemma loop_progress_stable:
  "segmentProgress n' k (store (snd (synthesisLoop env m vm n i rs s)) r)
     = segmentProgress n' k (store s r)"
  using loop_store_shape [of env m vm n i rs s r] by auto

text \<open>
  After a loop in which every synthesis succeeds, the object at a position that does not
  occur again later in the list holds the start time accumulated before that position
  and the duration of the buffer of that position.
\<close>

lemma loop_store_last:
  "loopOutcomes env m vm i rs (store s) = map Inr bufs \<Longrightarrow> k < length rs \<Longrightarrow>
   rs ! k \<notin> set (drop (Suc k) rs) \<Longrightarrow>
   store (snd (synthesisLoop env m vm n i rs s)) (rs ! k)
     = (store s (rs ! k))
         \<lparr>startTime := Some (foldl (+) (currentTotalTime s) (map buf_duration (take k bufs))),
          duration := Some (buf_duration (bufs ! k))\<rparr>"
proof (induction rs arbitrary: i s bufs k)
  case Nil
  then show ?case by simp
next
  case (Cons r rs)
  from Cons.prems(1) obtain b bs where bufs: "bufs = b # bs"
    and hd: "synthesizeVoice env m vm i (store s r) = Inr b"
    and tl: "loopOutcomes env m vm (Suc i) rs (store s) = map Inr bs"
    by (auto simp: Cons_eq_map_conv)
  let ?s' = "s\<lparr>reports := reports s @ [segmentProgress n i (store s r)],
                store := (store s)(r := (store s r)\<lparr>startTime := Some (currentTotalTime s),
                                                   duration := Some (buf_duration b)\<rparr>),
                currentTotalTime := currentTotalTime s + buf_duration b,
                audioBuffers := audioBuffers s @ [b]\<rparr>"
  have step: "synthesisLoop env m vm n i (r # rs) s = synthesisLoop env m vm n (Suc i) rs ?s'"
    using hd by (simp add: Let_def)
  have tl': "loopOutcomes env m vm (Suc i) rs (store ?s') = map Inr bs"
    using tl by simp
  show ?case
  proof (cases k)
    case 0
    with Cons.prems(3) have "r \<notin> set rs" by simp
    then have "store (snd (synthesisLoop env m vm n (Suc i) rs ?s')) r = store ?s' r"
      by (rule loop_store_frame)
    then show ?thesis unfolding step by (simp add: 0 bufs)
  next
    case (Suc k')
    with Cons.prems have k': "k' < length rs" "rs ! k' \<notin> set (drop (Suc k') rs)"
      by simp_all
    from Cons.IH [OF tl' k']
    show ?thesis unfolding step by (cases "rs ! k' = r") (simp_all add: Suc bufs)
  qed
qed

lemma loop_append:
  "synthesisLoop env m vm n i (xs @ ys) s
     = (case synthesisLoop env m vm n i xs s of
          (Some e, s') \<Rightarrow> (Some e, s')
        | (None, s') \<Rightarrow> synthesisLoop env m vm n (i + length xs) ys s')"
  by (induction xs arbitrary: i s)
     (auto simp: Let_def split: sum.splits prod.splits option.splits)

text \<open>
  When the syntheses of the first \<open>k\<close> elements succeed and the next one throws, the loop
  stops there: it throws the same value, holds the \<open>k\<close> buffers, and has changed no
  object that is not among the first \<open>k\<close> elements.
\<close>

lemma loop_failure:
  assumes k: "k < length rs"
    and ok: "take k (loopOutcomes env m vm i rs (store s)) = map Inr bufs"
    and bad: "loopOutcomes env m vm i rs (store s) ! k = Inl e"
  shows "fst (synthesisLoop env m vm n i rs s) = Some e"
    and "audioBuffers (snd (synthesisLoop env m vm n i rs s)) = audioBuffers s @ bufs"
    and "reports (snd (synthesisLoop env m vm n i rs s))
           = reports s @ map (\<lambda>(j, r). segmentProgress n j (store s r))
                             (enumerate i (take (Suc k) rs))"
    and "r \<notin> set (take k rs) \<Longrightarrow> store (snd (synthesisLoop env m vm n i rs s)) r = store s r"
proof -
  let ?pre = "take k rs" and ?post = "drop (Suc k) rs"
  let ?sk = "snd (synthesisLoop env m vm n i ?pre s)"
  have split: "rs = ?pre @ (rs ! k) # ?post"
    using k by (simp add: id_take_nth_drop)
  have len: "length ?pre = k" using k by simp
  have outs: "loopOutcomes env m vm i rs (store s)
               = loopOutcomes env m vm i ?pre (store s)
                 @ synthesizeVoice env m vm (i + k) (store s (rs ! k))
                 # loopOutcomes env m vm (Suc (i + k)) ?post (store s)"
    using loopOutcomes_append [of env m vm i ?pre "(rs ! k) # ?post" "store s"] split len
    by simp
  have pre: "loopOutcomes env m vm i ?pre (store s) = map Inr bufs"
    using ok outs len by simp
  have fail: "synthesizeVoice env m vm (i + k) (store s (rs ! k)) = Inl e"
    using bad outs len by (simp add: nth_append)
  note suc = loop_success [where n = n, OF pre]
  have fail': "synthesizeVoice env m vm (i + k) (store ?sk (rs ! k)) = Inl e"
    using fail loop_outcomes_stable [of env m vm "i + k" "[rs ! k]" n i ?pre s] by simp
  have run: "synthesisLoop env m vm n i rs s
               = (Some e, ?sk\<lparr>reports := reports ?sk @ [segmentProgress n (i + k) (store ?sk (rs ! k))]\<rparr>)"
  proof -
    have "synthesisLoop env m vm n i rs s
            = synthesisLoop env m vm n i (?pre @ (rs ! k) # ?post) s"
      using split by simp
    also have "\<dots> = synthesisLoop env m vm n (i + k) ((rs ! k) # ?post) ?sk"
      using suc len by (simp add: loop_append split_beta del: synthesisLoop.simps)
    also have "\<dots> = (Some e, ?sk\<lparr>reports := reports ?sk @ [segmentProgress n (i + k) (store ?sk (rs ! k))]\<rparr>)"
      using fail' by (simp add: Let_def)
    finally show ?thesis .
  qed
  show "fst (synthesisLoop env m vm n i rs s) = Some e"
    by (simp add: run)
  show "audioBuffers (snd (synthesisLoop env m vm n i rs s)) = audioBuffers s @ bufs"
    using suc by (simp add: run)
  have en: "enumerate i (take (Suc k) rs) = enumerate i ?pre @ [(i + k, rs ! k)]"
    using k by (simp add: take_Suc_conv_app_nth enumerate_append_eq)
  show "reports (snd (synthesisLoop env m vm n i rs s))
           = reports s @ map (\<lambda>(j, r). segmentProgress n j (store s r))
                             (enumerate i (take (Suc k) rs))"
    using suc loop_progress_stable [of n "i + k" env m vm n i ?pre s "rs ! k"]
    by (simp add: run en)
  show "store (snd (synthesisLoop env m vm n i rs s)) r = store s r" if "r \<notin> set (take k rs)"
    using that loop_store_frame [of r ?pre env m vm n i s] by (simp add: run)
qed

section \<open>The run as a whole\<close>

lemma startProduction_simps [simp]:
  "allSegments (startProduction env m w) = allSegments w"
  "initialStore (startProduction env m w) = initialStore w"
  "tier (state (startProduction env m w)) = tier (state w)"
  "exportFormat (state (startProduction env m w)) = exportFormat (state w)"
  "speakerVoiceMap (state (startProduction env m w)) = speakerVoiceMap (state w)"
  "progressCalls (startProduction env m w) = progressCalls w"
  "history (startProduction env m w) = history w"
  "fullAudioUrl (startProduction env m w) = None"
  "srtUrl (startProduction env m w) = None"
  "segments (startProduction env m w) = segments w"
  "heap (startProduction env m w) = heap w"
  by (simp_all add: startProduction_def addLog_def allSegments_def initialStore_def fun_eq_iff
        split: segref.split)

lemma loopStart_startProduction [simp]:
  "loopStart (startProduction env m w) = loopStart w"
  by (simp add: loopStart_def)

lemma loopStart_simps [simp]:
  "store (loopStart w) = initialStore w"
  "currentTotalTime (loopStart w) = 0"
  "audioBuffers (loopStart w) = []"
  "reports (loopStart w) = []"
  by (simp_all add: loopStart_def)

lemma settleProduction_simps [simp]:
  "fullAudioUrl (snd (settleProduction env err w)) = fullAudioUrl w"
  "srtUrl (snd (settleProduction env err w)) = srtUrl w"
  "history (snd (settleProduction env err w)) = history w"
  "heap (snd (settleProduction env err w)) = heap w"
  "isGenerating (state (snd (settleProduction env err w))) = False"
  "fst (settleProduction env None w) = None"
  "progressCalls (snd (settleProduction env None w)) = progressCalls w"
  "logs (snd (settleProduction env None w)) = logs w"
  "progressCalls (snd (settleProduction env (Some e) w))
     = progressCalls w @ (case messageText e of
                            Inl t \<Rightarrow> []
                          | Inr txt \<Rightarrow> [\<lparr>percent = 0, status = ''Pipeline Error'',
                                         stage = ''Failure''\<rparr>])"
  by (simp_all add: settleProduction_def setProgress_def addLog_def Let_def
        split: option.split sum.split)

text \<open>What the \<^verbatim>\<open>catch\<close> block does with a thrown value whose message it can read.\<close>

lemma settleProduction_caught:
  assumes "messageText e = Inr txt"
  shows "fst (settleProduction env (Some e) w) = None"
    and "logs (snd (settleProduction env (Some e) w))
           = take 100 (\<lparr>timestamp = dateNow env, level = error,
                         log_message = ''Production failed: '' @ txt\<rparr> # logs w)"
  using assms by (simp_all add: settleProduction_def setProgress_def addLog_def Let_def)

text \<open>
  A thrown \<^verbatim>\<open>null\<close> or \<^verbatim>\<open>undefined\<close> has no message to read: the \<^verbatim>\<open>catch\<close> block throws
  a type error, which leaves the handler once the \<^verbatim>\<open>finally\<close> block has run.
\<close>

lemma settleProduction_rethrown:
  "messageText e = Inl t \<Longrightarrow> fst (settleProduction env (Some e) w) = Some t"
  by (simp add: settleProduction_def)

text \<open>Once the guards are passed, the handler is the body between start and settlement.\<close>

lemma handler_unfold:
  "runnable env w \<Longrightarrow> ttsModelOf w = Some m \<Longrightarrow>
   handlePodcastProduction env w
     = settleProduction env (fst (productionBody env m (startProduction env m w)))
         (snd (productionBody env m (startProduction env m w)))"
  by (auto simp: handlePodcastProduction_def runnable_def ttsModelOf_def split_beta
           split: sum.splits option.splits)

lemma body_thrown_in_loop:
  "fst (runLoop env m w) = Some e \<Longrightarrow>
   productionBody env m (startProduction env m w)
     = (Some e, (startProduction env m w)
          \<lparr>heap := (\<lambda>a. store (snd (runLoop env m w)) (ScriptRef a)),
           progressCalls := progressCalls w @ reports (snd (runLoop env m w))\<rparr>)"
  by (simp add: productionBody_def runLoop_def split_beta Let_def)

lemma body_published:
  "fst (runLoop env m w) = None \<Longrightarrow>
   appendWatermark env (tier (state w)) (audioBuffers (snd (runLoop env m w))) = Inr final \<Longrightarrow>
   productionBody env m (startProduction env m w)
     = (None, publishMaster env m final (map (store (snd (runLoop env m w))) (allSegments w))
         (setProgress \<lparr>percent = 95, status = ''Mastering Final Mix...'',
                       stage = ''Post-Production''\<rparr>
            ((startProduction env m w)
               \<lparr>heap := (\<lambda>a. store (snd (runLoop env m w)) (ScriptRef a)),
                progressCalls := progressCalls w @ reports (snd (runLoop env m w))\<rparr>)))"
  by (simp add: productionBody_def runLoop_def split_beta Let_def)

lemma publishMaster_simps [simp]:
  "fullAudioUrl (publishMaster env m final segs w)
     = Some (createObjectURL env
               (encodeMaster env (exportFormat (state w)) (concatenateAudioBuffers env final)))"
  "srtUrl (publishMaster env m final segs w)
     = Some (createObjectURL env
               \<lparr>blob_content = generateSRT env segs, blob_type = ''text/plain''\<rparr>)"
  "progressCalls (publishMaster env m final segs w)
     = progressCalls w @ [\<lparr>percent = 100, status = ''Broadcast Ready!'', stage = ''Complete''\<rparr>]"
  "heap (publishMaster env m final segs w) = heap w"
  by (simp_all add: publishMaster_def setProgress_def addLog_def Let_def)

lemma run_success_loop:
  assumes "synthesisOutcomes env m w = map Inr bufs"
  shows "fst (runLoop env m w) = None"
    and "audioBuffers (snd (runLoop env m w)) = bufs"
    and "currentTotalTime (snd (runLoop env m w)) = foldl (+) 0 (map buf_duration bufs)"
    and "reports (snd (runLoop env m w))
           = map (\<lambda>(j, r). segmentProgress (length (allSegments w)) j (initialStore w r))
                 (enumerate 0 (allSegments w))"
proof -
  have "loopOutcomes env m (speakerVoiceMap (state w)) 0 (allSegments w) (store (loopStart w))
          = map Inr bufs"
    using assms by (simp add: synthesisOutcomes_def)
  note s = loop_success [where n = "length (allSegments w)", OF this]
  show "fst (runLoop env m w) = None" using s by (simp add: runLoop_def)
  show "audioBuffers (snd (runLoop env m w)) = bufs" using s by (simp add: runLoop_def)
  show "currentTotalTime (snd (runLoop env m w)) = foldl (+) 0 (map buf_duration bufs)"
    using s by (simp add: runLoop_def)
  show "reports (snd (runLoop env m w))
           = map (\<lambda>(j, r). segmentProgress (length (allSegments w)) j (initialStore w r))
                 (enumerate 0 (allSegments w))"
    using s by (simp add: runLoop_def)
qed

lemma run_failure_loop:
  assumes "k < length (allSegments w)"
    and "take k (synthesisOutcomes env m w) = map Inr bufs"
    and "synthesisOutcomes env m w ! k = Inl e"
  shows "fst (runLoop env m w) = Some e"
    and "audioBuffers (snd (runLoop env m w)) = bufs"
    and "reports (snd (runLoop env m w))
           = map (\<lambda>(j, r). segmentProgress (length (allSegments w)) j (initialStore w r))
                 (enumerate 0 (take (Suc k) (allSegments w)))"
    and "r \<notin> set (take k (allSegments w)) \<Longrightarrow> store (snd (runLoop env m w)) r = initialStore w r"
proof -
  have ok: "take k (loopOutcomes env m (speakerVoiceMap (state w)) 0 (allSegments w)
                      (store (loopStart w))) = map Inr bufs"
    using assms(2) by (simp add: synthesisOutcomes_def)
  have bad: "loopOutcomes env m (speakerVoiceMap (state w)) 0 (allSegments w)
                      (store (loopStart w)) ! k = Inl e"
    using assms(3) by (simp add: synthesisOutcomes_def)
  note f = loop_failure [where n = "length (allSegments w)", OF assms(1) ok bad]
  show "fst (runLoop env m w) = Some e" using f(1) by (simp add: runLoop_def)
  show "audioBuffers (snd (runLoop env m w)) = bufs" using f(2) by (simp add: runLoop_def)
  show "reports (snd (runLoop env m w))
           = map (\<lambda>(j, r). segmentProgress (length (allSegments w)) j (initialStore w r))
                 (enumerate 0 (take (Suc k) (allSegments w)))"
    using f(3) by (simp add: runLoop_def)
  show "store (snd (runLoop env m w)) r = initialStore w r" if "r \<notin> set (take k (allSegments w))"
    using f(4) [OF that] by (simp add: runLoop_def)
qed

text \<open>The world in which a run ends when the synthesis of a segment throws.\<close>

lemma run_aborted:
  assumes run: "runnable env w" "ttsModelOf w = Some m"
    and k: "k < length (allSegments w)"
    and ok: "take k (synthesisOutcomes env m w) = map Inr bufs"
    and bad: "synthesisOutcomes env m w ! k = Inl e"
  shows "handlePodcastProduction env w
           = settleProduction env (Some e)
                ((startProduction env m w)
                   \<lparr>heap := (\<lambda>a. store (snd (runLoop env m w)) (ScriptRef a)),
                    progressCalls := progressCalls w @ reports (snd (runLoop env m w))\<rparr>)"
  using handler_unfold [OF run] body_thrown_in_loop [OF run_failure_loop(1) [OF k ok bad]]
  by simp

text \<open>The world in which a run ends when every synthesis succeeds.\<close>

lemma run_published:
  assumes run: "runnable env w" "ttsModelOf w = Some m"
    and ok: "synthesisOutcomes env m w = map Inr bufs"
    and wm: "appendWatermark env (tier (state w)) bufs = Inr final"
  shows "handlePodcastProduction env w
           = settleProduction env None
               (publishMaster env m final (map (store (snd (runLoop env m w))) (allSegments w))
                 (setProgress \<lparr>percent = 95, status = ''Mastering Final Mix...'',
                               stage = ''Post-Production''\<rparr>
                    ((startProduction env m w)
                       \<lparr>heap := (\<lambda>a. store (snd (runLoop env m w)) (ScriptRef a)),
                        progressCalls := progressCalls w @ reports (snd (runLoop env m w))\<rparr>)))"
proof -
  have "appendWatermark env (tier (state w)) (audioBuffers (snd (runLoop env m w))) = Inr final"
    using wm run_success_loop(2) [OF ok] by simp
  from body_published [OF run_success_loop(1) [OF ok] this] handler_unfold [OF run]
  show ?thesis by simp
qed

lemma loopOutcomes_take:
  "take j (loopOutcomes env m vm i rs st) = loopOutcomes env m vm i (take j rs) st"
  by (simp add: loopOutcomes_def enumerate_eq_zip take_map take_zip)
     (simp add: min_def)

lemma allSegments_distinct: "distinct (segments w) \<Longrightarrow> distinct (allSegments w)"
  by (auto simp: allSegments_def distinct_map inj_on_def)

lemma run_after_iteration:
  assumes k: "k < length (allSegments w)"
    and ok: "take (Suc k) (synthesisOutcomes env m w) = map Inr bufs"
  shows "runLoop env m w
           = synthesisLoop env m (speakerVoiceMap (state w)) (length (allSegments w)) (Suc k)
               (drop (Suc k) (allSegments w)) (stateAfter env m w (Suc k))"
    and "store (stateAfter env m w (Suc k)) (allSegments w ! k)
           = (initialStore w (allSegments w ! k))
               \<lparr>startTime := Some (foldl (+) 0 (map buf_duration (take k bufs))),
                duration := Some (buf_duration (bufs ! k))\<rparr>"
    and "audioBuffers (stateAfter env m w (Suc k)) = bufs"
proof -
  let ?refs = "allSegments w" and ?vm = "speakerVoiceMap (state w)"
  let ?pre = "take (Suc k) ?refs"
  have pre: "loopOutcomes env m ?vm 0 ?pre (store (loopStart w)) = map Inr bufs"
    using ok by (simp add: synthesisOutcomes_def loopOutcomes_take)
  note s = loop_success [where n = "length ?refs", OF pre]
  have len: "length ?pre = Suc k" using k by simp
  have "runLoop env m w = synthesisLoop env m ?vm (length ?refs) 0 (?pre @ drop (Suc k) ?refs)
                            (loopStart w)"
    by (simp add: runLoop_def)
  also have "\<dots> = synthesisLoop env m ?vm (length ?refs) (Suc k) (drop (Suc k) ?refs)
                     (stateAfter env m w (Suc k))"
    using s len unfolding loop_append stateAfter_def by (simp add: split_beta)
  finally show "runLoop env m w
           = synthesisLoop env m ?vm (length ?refs) (Suc k)
               (drop (Suc k) ?refs) (stateAfter env m w (Suc k))" .
  have "k < length ?pre" "?pre ! k \<notin> set (drop (Suc k) ?pre)"
    using k by simp_all
  from loop_store_last [where n = "length ?refs", OF pre this]
  show "store (stateAfter env m w (Suc k)) (?refs ! k)
           = (initialStore w (?refs ! k))
               \<lparr>startTime := Some (foldl (+) 0 (map buf_duration (take k bufs))),
                duration := Some (buf_duration (bufs ! k))\<rparr>"
    by (simp add: stateAfter_def)
  show "audioBuffers (stateAfter env m w (Suc k)) = bufs"
    using s by (simp add: stateAfter_def)
qed

lemma run_final_store:
  assumes ok: "synthesisOutcomes env m w = map Inr bufs" and d: "distinct (segments w)"
  shows "map (store (snd (runLoop env m w))) (allSegments w)
           = map (\<lambda>k. (initialStore w (allSegments w ! k))
                         \<lparr>startTime := Some (foldl (+) 0 (map buf_duration (take k bufs))),
                          duration := Some (buf_duration (bufs ! k))\<rparr>)
                 [0..<length (allSegments w)]"
proof (rule nth_equalityI)
  show "length (map (store (snd (runLoop env m w))) (allSegments w))
          = length (map (\<lambda>k. (initialStore w (allSegments w ! k))
                         \<lparr>startTime := Some (foldl (+) 0 (map buf_duration (take k bufs))),
                          duration := Some (buf_duration (bufs ! k))\<rparr>)
                 [0..<length (allSegments w)])"
    by simp
next
  fix k assume "k < length (map (store (snd (runLoop env m w))) (allSegments w))"
  then have k: "k < length (allSegments w)" by simp
  have out: "loopOutcomes env m (speakerVoiceMap (state w)) 0 (allSegments w)
               (store (loopStart w)) = map Inr bufs"
    using ok by (simp add: synthesisOutcomes_def)
  have "distinct (allSegments w)" using d by (rule allSegments_distinct)
  then have "allSegments w ! k \<notin> set (drop (Suc k) (allSegments w))"
    using k by (metis Cons_nth_drop_Suc append_take_drop_id distinct.simps(2) distinct_append)
  from loop_store_last [where n = "length (allSegments w)", OF out k this]
  show "map (store (snd (runLoop env m w))) (allSegments w) ! k
          = map (\<lambda>k. (initialStore w (allSegments w ! k))
                         \<lparr>startTime := Some (foldl (+) 0 (map buf_duration (take k bufs))),
                          duration := Some (buf_duration (bufs ! k))\<rparr>)
                 [0..<length (allSegments w)] ! k"
    using k by (simp add: runLoop_def)
qed

lemma appendWatermark_prefix:
  "appendWatermark env t bufs = Inr final \<Longrightarrow> take (length bufs) final = bufs"
  by (auto simp: appendWatermark_def split: if_splits sum.splits)

lemma initialStore_exportFormat [simp]:
  "initialStore (w\<lparr>state := (state w)\<lparr>exportFormat := f\<rparr>\<rparr>) = initialStore w"
  by (rule ext) (simp add: initialStore_def split: segref.split)

lemma exportFormat_irrelevant [simp]:
  "runnable env (w\<lparr>state := (state w)\<lparr>exportFormat := f\<rparr>\<rparr>) = runnable env w"
  "ttsModelOf (w\<lparr>state := (state w)\<lparr>exportFormat := f\<rparr>\<rparr>) = ttsModelOf w"
  "synthesisOutcomes env m (w\<lparr>state := (state w)\<lparr>exportFormat := f\<rparr>\<rparr>)
     = synthesisOutcomes env m w"
  by (simp_all add: runnable_def ttsModelOf_def synthesisOutcomes_def allSegments_def)

lemma find_filter: "find P (filter Q xs) = find (\<lambda>x. Q x \<and> P x) xs"
  by (induction xs) simp_all

lemma find_in_set: "find P xs = Some x \<Longrightarrow> x \<in> set xs"
  by (induction xs) (auto split: if_splits)


section \<open>Facts about the example run\<close>

lemma example_runnable: "runnable (exampleEnv k) exampleWorld"
  by (simp add: runnable_def exampleEnv_def exampleWorld_def)

lemma example_model: "ttsModelOf exampleWorld = Some exampleModel"
  by (simp add: ttsModelOf_def exampleWorld_def selectModel_def MODEL_REGISTRY_def exampleModel_def)

lemma example_outcomes:
  "synthesisOutcomes (exampleEnv 9) exampleModel exampleWorld = map Inr exampleBuffers"
  by code_simp

lemma example_outcomes_fail:
  "take 2 (synthesisOutcomes (exampleEnv 2) exampleModel exampleWorld)
     = map Inr (take 2 exampleBuffers)"
  "synthesisOutcomes (exampleEnv 2) exampleModel exampleWorld ! 2
     = Inl (Error ''speech synthesis failed'')"
  by code_simp+

lemma example_segments: "length (allSegments exampleWorld) = 4"
  by (simp add: allSegments_def exampleWorld_def)

lemma example_take3:
  "take (Suc 2) (synthesisOutcomes (exampleEnv 9) exampleModel exampleWorld)
     = map Inr (take 3 exampleBuffers)"
  by (simp add: example_outcomes take_map)

lemma example_watermark:
  "appendWatermark (exampleEnv 9) (tier (state exampleWorld)) exampleBuffers
     = Inr (exampleBuffers @ [\<lparr>buf_duration = 1, buf_samples = [- 1]\<rparr>])"
  by (simp add: appendWatermark_def exampleEnv_def exampleWorld_def)







text \<open>
  Two places where the double arithmetic shows: in exact arithmetic 7/20 of 90 is 31.5
  and 23/36 of 90 is 57.5, which would round to 32 and 58; the doubles computed are just
  below, and round to 31 and 57.
\<close>

lemma progress_double_rounding:
  "toDouble 7 20 = (6305039478318694, 54)"
  "synthesisProgress 7 20 = 31"
  "synthesisProgress 23 36 = 57"
  by code_simp+

section \<open>Properties of the production run\<close>

text \<open>
  Claim C5, as amended. When the synthesis of a segment of the run throws (the segment at
  any position \<open>k\<close> of the list, intro and outro included, the segments before it having
  been synthesized), the run stops there and produces no artifact: the thrown value
  leaves the loop and the body of the run, the \<open>k\<close> buffers synthesized so far are not
  assembled, no audio URL and no subtitle URL is set, no history entry is added, and the
  generating flag is reset. The error is not propagated to the caller: the handler
  catches it, logs "Production failed: " followed by its message as an error, reports
  the "Pipeline Error" progress and resolves. Only a thrown \<^verbatim>\<open>null\<close> or \<^verbatim>\<open>undefined\<close>,
  whose message cannot be read, makes the handler reject, with the type error of that
  reading.
\<close>

theorem production_abort:
  "runnable env w \<Longrightarrow> ttsModelOf w = Some m \<Longrightarrow> k < length (allSegments w) \<Longrightarrow>
   take k (synthesisOutcomes env m w) = map Inr bufs \<Longrightarrow>
   synthesisOutcomes env m w ! k = Inl e \<Longrightarrow>
   fst (runLoop env m w) = Some e
   \<and> audioBuffers (snd (runLoop env m w)) = bufs
   \<and> fst (productionBody env m (startProduction env m w)) = Some e
   \<and> fullAudioUrl (snd (handlePodcastProduction env w)) = None
   \<and> srtUrl (snd (handlePodcastProduction env w)) = None
   \<and> history (snd (handlePodcastProduction env w)) = history w
   \<and> \<not> isGenerating (state (snd (handlePodcastProduction env w)))
   \<and> (\<forall>txt. messageText e = Inr txt \<longrightarrow>
         fst (handlePodcastProduction env w) = None
         \<and> hd (logs (snd (handlePodcastProduction env w)))
             = \<lparr>timestamp = dateNow env, level = error,
                log_message = ''Production failed: '' @ txt\<rparr>
         \<and> last (progressCalls (snd (handlePodcastProduction env w)))
             = \<lparr>percent = 0, status = ''Pipeline Error'', stage = ''Failure''\<rparr>
         \<and> length (progressCalls (snd (handlePodcastProduction env w)))
             = length (progressCalls w) + Suc k + 1)
   \<and> (\<forall>t. messageText e = Inl t \<longrightarrow> fst (handlePodcastProduction env w) = Some t)"
proof -
  assume run: "runnable env w" "ttsModelOf w = Some m" and k: "k < length (allSegments w)"
    and ok: "take k (synthesisOutcomes env m w) = map Inr bufs"
    and bad: "synthesisOutcomes env m w ! k = Inl e"
  note r = run_aborted [OF run k ok bad]
  note f = run_failure_loop [OF k ok bad]
  have len: "length (reports (snd (runLoop env m w))) = Suc k"
    using k by (simp add: f(3) enumerate_eq_zip)
  have body: "fst (productionBody env m (startProduction env m w)) = Some e"
    by (simp add: body_thrown_in_loop [OF f(1)])
  have caught: "fst (handlePodcastProduction env w) = None
         \<and> hd (logs (snd (handlePodcastProduction env w)))
             = \<lparr>timestamp = dateNow env, level = error,
                log_message = ''Production failed: '' @ s\<rparr>
         \<and> last (progressCalls (snd (handlePodcastProduction env w)))
             = \<lparr>percent = 0, status = ''Pipeline Error'', stage = ''Failure''\<rparr>
         \<and> length (progressCalls (snd (handlePodcastProduction env w)))
             = length (progressCalls w) + Suc k + 1"
    if "messageText e = Inr s" for s
    using that len by (simp add: r settleProduction_caught [OF that])
  have rethrown: "fst (handlePodcastProduction env w) = Some t"
    if "messageText e = Inl t" for t
    using that by (simp add: r settleProduction_rethrown)
  have rest: "fullAudioUrl (snd (handlePodcastProduction env w)) = None"
    "srtUrl (snd (handlePodcastProduction env w)) = None"
    "history (snd (handlePodcastProduction env w)) = history w"
    "\<not> isGenerating (state (snd (handlePodcastProduction env w)))"
    by (simp_all add: r)
  show ?thesis
    using f(1) f(2) body caught rethrown rest by blast
qed

text \<open>
  The example run in which the synthesis of the third segment throws an error with the
  message "speech synthesis failed".
\<close>

theorem production_abort_witness:
  "fst (runLoop (exampleEnv 2) exampleModel exampleWorld) = Some (Error ''speech synthesis failed'')
   \<and> audioBuffers (snd (runLoop (exampleEnv 2) exampleModel exampleWorld)) = take 2 exampleBuffers
   \<and> fst (handlePodcastProduction (exampleEnv 2) exampleWorld) = None
   \<and> fullAudioUrl (snd (handlePodcastProduction (exampleEnv 2) exampleWorld)) = None
   \<and> srtUrl (snd (handlePodcastProduction (exampleEnv 2) exampleWorld)) = None
   \<and> history (snd (handlePodcastProduction (exampleEnv 2) exampleWorld)) = []
   \<and> hd (logs (snd (handlePodcastProduction (exampleEnv 2) exampleWorld)))
       = \<lparr>timestamp = 0, level = error,
          log_message = ''Production failed: speech synthesis failed''\<rparr>
   \<and> length (progressCalls (snd (handlePodcastProduction (exampleEnv 2) exampleWorld))) = 4"
proof -
  have k: "2 < length (allSegments exampleWorld)"
    by (simp add: example_segments)
  have c: "history exampleWorld = []" "progressCalls exampleWorld = []"
    "dateNow (exampleEnv 2) = 0"
    by (simp_all add: exampleWorld_def exampleEnv_def)
  have t: "messageText (Error ''speech synthesis failed'') = Inr ''speech synthesis failed''"
    by (simp add: messageText_def Error_def)
  from production_abort [OF example_runnable example_model k example_outcomes_fail] t
  show ?thesis by (simp add: c)
qed

text \<open>
  The claim as stated has the run abort with a propagated error. In the example run the
  synthesis of the third segment throws, and the handler resolves: its caller receives
  no error.
\<close>

theorem production_abort_counterexample:
  "synthesisOutcomes (exampleEnv 2) exampleModel exampleWorld ! 2
     = Inl (Error ''speech synthesis failed'')
   \<and> fst (handlePodcastProduction (exampleEnv 2) exampleWorld) = None"
  by code_simp

text \<open>
  The timing of the segments. The list of the run is the intro, the script segments in
  order and the outro. At the end of iteration \<open>k\<close> of the loop, reached when the
  syntheses of the positions up to \<open>k\<close> have succeeded, the segment at position \<open>k\<close>
  holds as start time the sum, accumulated from 0 in list order, of the durations of the
  buffers before it, and as duration that of its own buffer. If the synthesis at position
  \<open>k\<close> throws, no object other than those of the first \<open>k\<close> positions has been assigned.
  When all syntheses succeed, the buffers handed to the concatenation are those of the
  segments in list order (before the watermark, if any); and when no segment object
  occurs twice in the script list, the subtitle generator receives every segment with
  these timings.
\<close>

lemma run_timing:
  "runnable env w \<Longrightarrow> ttsModelOf w = Some m \<Longrightarrow>
   allSegments w = [IntroRef] @ map ScriptRef (segments w) @ [OutroRef]
   \<and> (k < length (allSegments w) \<and> take (Suc k) (synthesisOutcomes env m w) = map Inr bufs \<longrightarrow>
        runLoop env m w
          = synthesisLoop env m (speakerVoiceMap (state w)) (length (allSegments w)) (Suc k)
              (drop (Suc k) (allSegments w)) (stateAfter env m w (Suc k))
        \<and> startTime (store (stateAfter env m w (Suc k)) (allSegments w ! k))
            = Some (foldl (+) 0 (map buf_duration (take k bufs)))
        \<and> duration (store (stateAfter env m w (Suc k)) (allSegments w ! k))
            = Some (buf_duration (bufs ! k))
        \<and> audioBuffers (stateAfter env m w (Suc k)) = bufs)
   \<and> (k < length (allSegments w) \<and> take k (synthesisOutcomes env m w) = map Inr bufs
        \<and> synthesisOutcomes env m w ! k = Inl e \<longrightarrow>
        (\<forall>r. r \<notin> set (take k (allSegments w)) \<longrightarrow>
              store (snd (runLoop env m w)) r = initialStore w r)
        \<and> (\<forall>a. ScriptRef a \<notin> set (take k (allSegments w)) \<longrightarrow>
              heap (snd (handlePodcastProduction env w)) a = heap w a))
   \<and> (synthesisOutcomes env m w = map Inr bufs \<longrightarrow>
        audioBuffers (snd (runLoop env m w)) = bufs
        \<and> (\<forall>final. appendWatermark env (tier (state w)) bufs = Inr final \<longrightarrow>
              take (length bufs) final = bufs
              \<and> fullAudioUrl (snd (handlePodcastProduction env w))
                  = Some (createObjectURL env (encodeMaster env (exportFormat (state w))
                            (concatenateAudioBuffers env final)))))
   \<and> (synthesisOutcomes env m w = map Inr bufs \<and> distinct (segments w) \<longrightarrow>
        map (store (snd (runLoop env m w))) (allSegments w)
          = map (\<lambda>j. (initialStore w (allSegments w ! j))
                        \<lparr>startTime := Some (foldl (+) 0 (map buf_duration (take j bufs))),
                         duration := Some (buf_duration (bufs ! j))\<rparr>)
                [0..<length (allSegments w)]
        \<and> (\<forall>final. appendWatermark env (tier (state w)) bufs = Inr final \<longrightarrow>
              srtUrl (snd (handlePodcastProduction env w))
                = Some (createObjectURL env
                    \<lparr>blob_content = generateSRT env
                       (map (\<lambda>j. (initialStore w (allSegments w ! j))
                          \<lparr>startTime := Some (foldl (+) 0 (map buf_duration (take j bufs))),
                           duration := Some (buf_duration (bufs ! j))\<rparr>)
                        [0..<length (allSegments w)]),
                     blob_type = ''text/plain''\<rparr>)))"
proof -
  assume run: "runnable env w" "ttsModelOf w = Some m"
  have A: "runLoop env m w
          = synthesisLoop env m (speakerVoiceMap (state w)) (length (allSegments w)) (Suc k)
              (drop (Suc k) (allSegments w)) (stateAfter env m w (Suc k))
        \<and> startTime (store (stateAfter env m w (Suc k)) (allSegments w ! k))
            = Some (foldl (+) 0 (map buf_duration (take k bufs)))
        \<and> duration (store (stateAfter env m w (Suc k)) (allSegments w ! k))
            = Some (buf_duration (bufs ! k))
        \<and> audioBuffers (stateAfter env m w (Suc k)) = bufs"
    if "k < length (allSegments w)" "take (Suc k) (synthesisOutcomes env m w) = map Inr bufs"
    using run_after_iteration [OF that] by simp
  have B: "(\<forall>r. r \<notin> set (take k (allSegments w)) \<longrightarrow>
              store (snd (runLoop env m w)) r = initialStore w r)
        \<and> (\<forall>a. ScriptRef a \<notin> set (take k (allSegments w)) \<longrightarrow>
              heap (snd (handlePodcastProduction env w)) a = heap w a)"
    if "k < length (allSegments w)" "take k (synthesisOutcomes env m w) = map Inr bufs"
      "synthesisOutcomes env m w ! k = Inl e"
    using run_failure_loop(4) [OF that]
    by (simp add: run_aborted [OF run that] initialStore_def)
  have C: "audioBuffers (snd (runLoop env m w)) = bufs
        \<and> (\<forall>final. appendWatermark env (tier (state w)) bufs = Inr final \<longrightarrow>
              take (length bufs) final = bufs
              \<and> fullAudioUrl (snd (handlePodcastProduction env w))
                  = Some (createObjectURL env (encodeMaster env (exportFormat (state w))
                            (concatenateAudioBuffers env final))))"
    if ok: "synthesisOutcomes env m w = map Inr bufs"
  proof (intro conjI allI impI)
    show "audioBuffers (snd (runLoop env m w)) = bufs"
      by (rule run_success_loop(2) [OF ok])
  next
    fix final assume wm: "appendWatermark env (tier (state w)) bufs = Inr final"
    show "take (length bufs) final = bufs"
      by (rule appendWatermark_prefix [OF wm])
    show "fullAudioUrl (snd (handlePodcastProduction env w))
            = Some (createObjectURL env (encodeMaster env (exportFormat (state w))
                      (concatenateAudioBuffers env final)))"
      by (simp add: run_published [OF run ok wm] setProgress_def)
  qed
  have D: "map (store (snd (runLoop env m w))) (allSegments w)
          = map (\<lambda>j. (initialStore w (allSegments w ! j))
                        \<lparr>startTime := Some (foldl (+) 0 (map buf_duration (take j bufs))),
                         duration := Some (buf_duration (bufs ! j))\<rparr>)
                [0..<length (allSegments w)]
        \<and> (\<forall>final. appendWatermark env (tier (state w)) bufs = Inr final \<longrightarrow>
              srtUrl (snd (handlePodcastProduction env w))
                = Some (createObjectURL env
                    \<lparr>blob_content = generateSRT env
                       (map (\<lambda>j. (initialStore w (allSegments w ! j))
                          \<lparr>startTime := Some (foldl (+) 0 (map buf_duration (take j bufs))),
                           duration := Some (buf_duration (bufs ! j))\<rparr>)
                        [0..<length (allSegments w)]),
                     blob_type = ''text/plain''\<rparr>))"
    if ok: "synthesisOutcomes env m w = map Inr bufs" and d: "distinct (segments w)"
  proof (intro conjI allI impI)
    show fin: "map (store (snd (runLoop env m w))) (allSegments w)
          = map (\<lambda>j. (initialStore w (allSegments w ! j))
                        \<lparr>startTime := Some (foldl (+) 0 (map buf_duration (take j bufs))),
                         duration := Some (buf_duration (bufs ! j))\<rparr>)
                [0..<length (allSegments w)]"
      by (rule run_final_store [OF ok d])
    fix final assume wm: "appendWatermark env (tier (state w)) bufs = Inr final"
    show "srtUrl (snd (handlePodcastProduction env w))
                = Some (createObjectURL env
                    \<lparr>blob_content = generateSRT env
                       (map (\<lambda>j. (initialStore w (allSegments w ! j))
                          \<lparr>startTime := Some (foldl (+) 0 (map buf_duration (take j bufs))),
                           duration := Some (buf_duration (bufs ! j))\<rparr>)
                        [0..<length (allSegments w)]),
                     blob_type = ''text/plain''\<rparr>)"
      unfolding fin [symmetric]
      by (simp add: run_published [OF run ok wm] setProgress_def)
  qed
  have E: "allSegments w = [IntroRef] @ map ScriptRef (segments w) @ [OutroRef]"
    by (simp add: allSegments_def)
  show ?thesis using A B C D E by blast
qed

text \<open>
  Claim C6 does not hold of the code. The loop assigns the timing to the segment objects
  themselves (lines 355 and 356), and the script list can hold one object at two
  positions: when the script is parsed again, line 148 takes for every line the first
  existing segment with the same speaker and text, so two identical lines share it. Take
  the example world with such a list: the object of address 0 at both script positions.
  Every synthesis succeeds, with the durations 2, 4, 4 and 3. At the end of the second
  iteration the object holds the start time 2; the third iteration assigns 6 to the same
  object. At the end of the run the segments of the four positions hold the start times
  0, 6, 6 and 10, where the claim has 0, 2, 6 and 10, and the subtitle generator receives
  them so.
\<close>

theorem production_timing_shared_object:
  "ttsModelOf (exampleWorld\<lparr>segments := [0, 0]\<rparr>) = Some exampleModel
   \<and> allSegments (exampleWorld\<lparr>segments := [0, 0]\<rparr>)
       = [IntroRef, ScriptRef 0, ScriptRef 0, OutroRef]
   \<and> map (map_sum id buf_duration)
        (synthesisOutcomes (exampleEnv 9) exampleModel (exampleWorld\<lparr>segments := [0, 0]\<rparr>))
       = [Inr 2, Inr 4, Inr 4, Inr 3]
   \<and> startTime (store (stateAfter (exampleEnv 9) exampleModel
                          (exampleWorld\<lparr>segments := [0, 0]\<rparr>) 2) (ScriptRef 0)) = Some 2
   \<and> map (\<lambda>r. startTime (store (snd (runLoop (exampleEnv 9) exampleModel
                                        (exampleWorld\<lparr>segments := [0, 0]\<rparr>))) r))
        (allSegments (exampleWorld\<lparr>segments := [0, 0]\<rparr>))
       = [Some 0, Some 6, Some 6, Some 10]
   \<and> srtUrl (snd (handlePodcastProduction (exampleEnv 9) (exampleWorld\<lparr>segments := [0, 0]\<rparr>)))
       = Some ''blob:System@0;Host@6;Host@6;System@10;''"
  by code_simp

text \<open>
  Claim C7. The watermark buffer is appended, after the buffers of all segments and
  before concatenation and encoding, exactly when the tier is FREE: for PRO and ENTERPRISE
  the buffers are passed on unchanged, and in a run whose syntheses succeed the encoded
  audio is made from the buffers followed by the watermark if the tier is FREE and from
  the buffers alone otherwise, whatever the rest of the state.
\<close>

theorem production_watermark:
  "appendWatermark env PRO bufs = Inr bufs
   \<and> appendWatermark env ENTERPRISE bufs = Inr bufs
   \<and> (createWatermarkBuffer env = Inr wm \<longrightarrow> appendWatermark env FREE bufs = Inr (bufs @ [wm]))
   \<and> (runnable env w \<and> ttsModelOf w = Some m \<and> synthesisOutcomes env m w = map Inr bufs
        \<and> createWatermarkBuffer env = Inr wm \<longrightarrow>
      fullAudioUrl (snd (handlePodcastProduction env w))
        = Some (createObjectURL env (encodeMaster env (exportFormat (state w))
                  (concatenateAudioBuffers env
                     (if tier (state w) = FREE then bufs @ [wm] else bufs)))))"
proof (intro conjI impI)
  assume a: "runnable env w \<and> ttsModelOf w = Some m \<and> synthesisOutcomes env m w = map Inr bufs
        \<and> createWatermarkBuffer env = Inr wm"
  then have wm: "appendWatermark env (tier (state w)) bufs
                   = Inr (if tier (state w) = FREE then bufs @ [wm] else bufs)"
    by (simp add: appendWatermark_def)
  from a have run: "runnable env w" "ttsModelOf w = Some m"
    and ok: "synthesisOutcomes env m w = map Inr bufs" by simp_all
  show "fullAudioUrl (snd (handlePodcastProduction env w))
        = Some (createObjectURL env (encodeMaster env (exportFormat (state w))
                  (concatenateAudioBuffers env
                     (if tier (state w) = FREE then bufs @ [wm] else bufs))))"
    by (simp add: run_published [OF run ok wm] setProgress_def)
qed (simp_all add: appendWatermark_def)

theorem production_watermark_witness:
  "fullAudioUrl (snd (handlePodcastProduction (exampleEnv 9) exampleWorld)) = Some ''blob:mp3:14''
   \<and> fullAudioUrl (snd (handlePodcastProduction (exampleEnv 9)
         (exampleWorld\<lparr>state := (state exampleWorld)\<lparr>tier := PRO\<rparr>\<rparr>))) = Some ''blob:mp3:13''"
proof -
  let ?w = "exampleWorld\<lparr>state := (state exampleWorld)\<lparr>tier := PRO\<rparr>\<rparr>"
  have wm: "createWatermarkBuffer (exampleEnv 9) = Inr \<lparr>buf_duration = 1, buf_samples = [- 1]\<rparr>"
    by (simp add: exampleEnv_def)
  have r: "runnable (exampleEnv 9) ?w" by (simp add: runnable_def exampleEnv_def exampleWorld_def)
  have m: "ttsModelOf ?w = Some exampleModel" by code_simp
  have o: "synthesisOutcomes (exampleEnv 9) exampleModel ?w = map Inr exampleBuffers" by code_simp
  have a: "\<And>b. createObjectURL (exampleEnv 9) (encodeMaster (exampleEnv 9) OGG
             (concatenateAudioBuffers (exampleEnv 9) b))
           = ''blob:mp3:'' @ natToString (foldl (+) 0 (map buf_duration b))"
    by (simp add: exampleEnv_def encodeMaster_def)
  have n: "natToString 14 = ''14''" "natToString 13 = ''13''" by code_simp+
  from production_watermark [of "exampleEnv 9" exampleBuffers _ exampleWorld exampleModel]
    example_runnable example_model example_outcomes wm
  have 1: "fullAudioUrl (snd (handlePodcastProduction (exampleEnv 9) exampleWorld)) = Some ''blob:mp3:14''"
    by (simp add: a n) (simp add: exampleWorld_def exampleBuffers_def a n)
  from production_watermark [of "exampleEnv 9" exampleBuffers _ ?w exampleModel] r m o wm
  have 2: "fullAudioUrl (snd (handlePodcastProduction (exampleEnv 9) ?w)) = Some ''blob:mp3:13''"
    by (simp add: a n) (simp add: exampleWorld_def exampleBuffers_def a n)
  show ?thesis using 1 2 by simp
qed

text \<open>
  Claim C8. The voice of a segment is resolved in this order: the candidates are the
  GEMINI voices when the provider of the routing decision is gemini and the BROWSER
  voices otherwise; the voice mapped to the speaker is taken if it is among the
  candidates; else the first candidate whose name contains the speaker label, case
  being ignored; else the first candidate. The code computes what this order prescribes
  (\<open>resolveVoice_spec\<close>), a resolved voice is always a candidate, and a voice is resolved
  whenever there is a candidate, so always for the voices of the program.
\<close>

theorem voice_resolution:
  "resolveVoice voices m vm spk = resolveVoice_spec voices m vm spk
   \<and> restrictedVoices voices m
       = filter (\<lambda>v. engine v = (if cfg_provider m = gemini then GEMINI else BROWSER)) voices
   \<and> (restrictedVoices voices m \<noteq> [] \<longrightarrow> resolveVoice voices m vm spk \<noteq> None)
   \<and> (\<forall>v. resolveVoice voices m vm spk = Some v \<longrightarrow> v \<in> set (restrictedVoices voices m))
   \<and> resolveVoice VOICES m vm spk \<noteq> None"
proof -
  have r: "restrictedVoices vs m
             = filter (\<lambda>v. engine v = (if cfg_provider m = gemini then GEMINI else BROWSER)) vs"
    for vs
    by (simp add: restrictedVoices_def)
  have mapped: "find (\<lambda>v. Some (voice_id v) = vm spk
                          \<and> engine v = (if cfg_provider m = gemini then GEMINI else BROWSER)) vs
                  = (case vm spk of None \<Rightarrow> None
                     | Some vid \<Rightarrow> find (\<lambda>v. voice_id v = vid) (restrictedVoices vs m))"
    for vs
    by (cases "vm spk") (simp_all add: r find_filter conj_commute find_None_iff)
  have eq: "resolveVoice vs m vm spk = resolveVoice_spec vs m vm spk" for vs
    unfolding resolveVoice_def resolveVoice_spec_def Let_def mapped containsCI_def
    by (cases "cfg_provider m = gemini")
       (simp_all add: restrictedVoices_def cong: option.case_cong list.case_cong)
  have some: "resolveVoice vs m vm spk \<noteq> None" if "restrictedVoices vs m \<noteq> []" for vs
    using that unfolding eq resolveVoice_spec_def Let_def
    by (cases "restrictedVoices vs m") (auto split: option.splits)
  have mem: "v \<in> set (restrictedVoices voices m)"
    if "resolveVoice voices m vm spk = Some v" for v
    using that unfolding eq resolveVoice_spec_def Let_def
    by (auto split: option.splits list.splits dest!: find_in_set)
  have "restrictedVoices VOICES m \<noteq> []"
    by (simp add: restrictedVoices_def VOICES_def)
  then have "resolveVoice VOICES m vm spk \<noteq> None"
    by (rule some)
  then show ?thesis using r eq some mem by simp
qed

theorem voice_resolution_witness:
  "resolveVoice VOICES exampleModel [''Host'' \<mapsto> ''free-2''] ''Host'' = Some (VOICES ! 4)
   \<and> resolveVoice VOICES exampleModel [''Host'' \<mapsto> ''pro-1''] ''SONIA'' = Some (VOICES ! 5)
   \<and> resolveVoice VOICES exampleModel [''Host'' \<mapsto> ''pro-1''] ''Host'' = Some (VOICES ! 3)
   \<and> VOICES ! 3 \<in> set (restrictedVoices VOICES exampleModel)"
proof -
  have a: "resolveVoice_spec VOICES exampleModel [''Host'' \<mapsto> ''free-2''] ''Host'' = Some (VOICES ! 4)"
    "resolveVoice_spec VOICES exampleModel [''Host'' \<mapsto> ''pro-1''] ''SONIA'' = Some (VOICES ! 5)"
    "resolveVoice_spec VOICES exampleModel [''Host'' \<mapsto> ''pro-1''] ''Host'' = Some (VOICES ! 3)"
    by code_simp+
  note v1 = voice_resolution [of VOICES exampleModel "[''Host'' \<mapsto> ''free-2'']" "''Host''"]
  note v2 = voice_resolution [of VOICES exampleModel "[''Host'' \<mapsto> ''pro-1'']" "''SONIA''"]
  note v3 = voice_resolution [of VOICES exampleModel "[''Host'' \<mapsto> ''pro-1'']" "''Host''"]
  have 1: "resolveVoice VOICES exampleModel [''Host'' \<mapsto> ''free-2''] ''Host'' = Some (VOICES ! 4)"
    using v1 [THEN conjunct1] a(1) by simp
  have 2: "resolveVoice VOICES exampleModel [''Host'' \<mapsto> ''pro-1''] ''SONIA'' = Some (VOICES ! 5)"
    using v2 [THEN conjunct1] a(2) by simp
  have 3: "resolveVoice VOICES exampleModel [''Host'' \<mapsto> ''pro-1''] ''Host'' = Some (VOICES ! 3)"
    using v3 [THEN conjunct1] a(3) by simp
  have 4: "VOICES ! 3 \<in> set (restrictedVoices VOICES exampleModel)"
    using v3 [THEN conjunct2, THEN conjunct2, THEN conjunct2, THEN conjunct1] 3 by blast
  show ?thesis using 1 2 3 4 by blast
qed




text \<open>
  Claim C10. The OGG export format is encoded by the MP3 encoder: on the same buffer the
  OGG and MP3 exports are the same blob, and only WAV selects the WAV encoder. In a run
  whose syntheses succeed the published audio is the MP3 encoding of the master buffer
  unless the format is WAV, and the runs for OGG and for MP3 publish the same audio.
\<close>

theorem export_ogg_is_mp3:
  "encodeMaster env OGG b = encodeMaster env MP3 b
   \<and> encodeMaster env MP3 b = audioBufferToMp3 env b
   \<and> encodeMaster env WAV b = audioBufferToWav env b
   \<and> (runnable env w \<and> ttsModelOf w = Some m \<and> synthesisOutcomes env m w = map Inr bufs
        \<and> appendWatermark env (tier (state w)) bufs = Inr final \<longrightarrow>
      fullAudioUrl (snd (handlePodcastProduction env w))
        = Some (createObjectURL env
            (if exportFormat (state w) = WAV
             then audioBufferToWav env (concatenateAudioBuffers env final)
             else audioBufferToMp3 env (concatenateAudioBuffers env final)))
      \<and> fullAudioUrl (snd (handlePodcastProduction env
            (w\<lparr>state := (state w)\<lparr>exportFormat := OGG\<rparr>\<rparr>)))
        = fullAudioUrl (snd (handlePodcastProduction env
            (w\<lparr>state := (state w)\<lparr>exportFormat := MP3\<rparr>\<rparr>))))"
proof (intro conjI impI)
  assume a: "runnable env w \<and> ttsModelOf w = Some m \<and> synthesisOutcomes env m w = map Inr bufs
        \<and> appendWatermark env (tier (state w)) bufs = Inr final"
  then have run: "runnable env w" "ttsModelOf w = Some m"
    and ok: "synthesisOutcomes env m w = map Inr bufs"
    and wm: "appendWatermark env (tier (state w)) bufs = Inr final" by simp_all
  show "fullAudioUrl (snd (handlePodcastProduction env w))
        = Some (createObjectURL env
            (if exportFormat (state w) = WAV
             then audioBufferToWav env (concatenateAudioBuffers env final)
             else audioBufferToMp3 env (concatenateAudioBuffers env final)))"
    by (cases "exportFormat (state w)")
       (simp_all add: run_published [OF run ok wm] setProgress_def encodeMaster_def)
  have pub: "fullAudioUrl (snd (handlePodcastProduction env
                (w\<lparr>state := (state w)\<lparr>exportFormat := f\<rparr>\<rparr>)))
               = Some (createObjectURL env (encodeMaster env f (concatenateAudioBuffers env final)))"
    for f
  proof -
    let ?w = "w\<lparr>state := (state w)\<lparr>exportFormat := f\<rparr>\<rparr>"
    have run': "runnable env ?w" "ttsModelOf ?w = Some m" using run by simp_all
    have ok': "synthesisOutcomes env m ?w = map Inr bufs" using ok by simp
    have wm': "appendWatermark env (tier (state ?w)) bufs = Inr final" using wm by simp
    show ?thesis
      by (simp add: run_published [OF run' ok' wm'] setProgress_def)
  qed
  show "fullAudioUrl (snd (handlePodcastProduction env
            (w\<lparr>state := (state w)\<lparr>exportFormat := OGG\<rparr>\<rparr>)))
        = fullAudioUrl (snd (handlePodcastProduction env
            (w\<lparr>state := (state w)\<lparr>exportFormat := MP3\<rparr>\<rparr>)))"
    by (simp add: pub encodeMaster_def)
qed (simp_all add: encodeMaster_def)

theorem export_ogg_is_mp3_witness:
  "exportFormat (state exampleWorld) = OGG
   \<and> fullAudioUrl (snd (handlePodcastProduction (exampleEnv 9) exampleWorld))
       = Some ''blob:mp3:14''
   \<and> fullAudioUrl (snd (handlePodcastProduction (exampleEnv 9)
         (exampleWorld\<lparr>state := (state exampleWorld)\<lparr>exportFormat := WAV\<rparr>\<rparr>)))
       = Some ''blob:wav:14''"
proof -
  let ?w = "exampleWorld\<lparr>state := (state exampleWorld)\<lparr>exportFormat := WAV\<rparr>\<rparr>"
  let ?final = "exampleBuffers @ [\<lparr>buf_duration = 1, buf_samples = [- 1]\<rparr>]"
  have f: "exportFormat (state exampleWorld) = OGG" "exportFormat (state ?w) = WAV"
    by (simp_all add: exampleWorld_def)
  have wm: "appendWatermark (exampleEnv 9) (tier (state ?w)) exampleBuffers = Inr ?final"
    using example_watermark by simp
  have enc: "createObjectURL (exampleEnv 9)
               (audioBufferToMp3 (exampleEnv 9) (concatenateAudioBuffers (exampleEnv 9) ?final))
             = ''blob:mp3:14''"
    "createObjectURL (exampleEnv 9)
               (audioBufferToWav (exampleEnv 9) (concatenateAudioBuffers (exampleEnv 9) ?final))
             = ''blob:wav:14''"
    by code_simp+
  note T1 = export_ogg_is_mp3 [where env = "exampleEnv 9" and m = exampleModel
      and bufs = exampleBuffers and final = ?final and w = exampleWorld,
      THEN conjunct2, THEN conjunct2, THEN conjunct2]
  note T2 = export_ogg_is_mp3 [where env = "exampleEnv 9" and m = exampleModel
      and bufs = exampleBuffers and final = ?final and w = ?w,
      THEN conjunct2, THEN conjunct2, THEN conjunct2]
  have 1: "fullAudioUrl (snd (handlePodcastProduction (exampleEnv 9) exampleWorld))
       = Some ''blob:mp3:14''"
    using T1 example_runnable [of 9] example_model example_outcomes
      example_watermark f(1) enc(1)
    by simp
  have 2: "fullAudioUrl (snd (handlePodcastProduction (exampleEnv 9) ?w)) = Some ''blob:wav:14''"
    using T2 example_runnable [of 9] example_model example_outcomes wm f(2) enc(2)
    by simp
  show ?thesis using f(1) 1 2 by simp
qed

end
